theory Spec2Isabelle
  imports Complex_Main "HOL-Library.Log_Nat"
begin

section \<open>JavaScript values used by the three screens\<close>

text \<open>
  The repository holds three versions of one React screen: the legacy screen
  (\<^verbatim>\<open>src/frontend/src/App_old.tsx\<close>), the timer-driven screen
  (\<^verbatim>\<open>src/unnamed/part_000\<close>) and the session-aware screen
  (\<^verbatim>\<open>src/unnamed/part_001\<close>). Each screen is modelled by a record of its
  \<^verbatim>\<open>useState\<close> cells; a handler is a function from the state before to the
  state after, paired with the list of effects it performs (alerts, HTTP requests), in order.
  What the outside world answers (the response of the backend, the result of reading a file)
  is an argument of the handler.

  An optional JavaScript value (\<^verbatim>\<open>undefined\<close> or \<^verbatim>\<open>null\<close>) is
  \<open>None\<close>. Strings are byte strings in UTF-8; the Korean literals of the source are
  written out byte by byte. Usage counters and limits are whole numbers and are \<open>int\<close>;
  where the code adds to a counter, the sum is rounded to the nearest double, as
  JavaScript rounds it (\<open>js_add\<close>). The remaining usage the main view computes may also
  be \<^verbatim>\<open>NaN\<close> (\<open>jsnum\<close>). Processing time and cost are only passed through and
  are \<open>real\<close>.
\<close>

definition truthy :: "string option \<Rightarrow> bool" where
  \<comment> \<open>a string-or-undefined in a condition: the empty string is falsy\<close>
  "truthy v = (case v of None \<Rightarrow> False | Some t \<Rightarrow> t \<noteq> [])"

definition or_str :: "string option \<Rightarrow> string \<Rightarrow> string" where
  \<comment> \<open>\<^verbatim>\<open>v || d\<close> with a string literal on the right\<close>
  "or_str v d = (case v of None \<Rightarrow> d | Some t \<Rightarrow> if t = [] then d else t)"

definition or_opt :: "string option \<Rightarrow> string option \<Rightarrow> string option" where
  \<comment> \<open>\<^verbatim>\<open>v || w\<close> where the right side may be undefined too\<close>
  "or_opt v w = (if truthy v then v else w)"

definition or_num :: "real option \<Rightarrow> real \<Rightarrow> real" where
  \<comment> \<open>\<^verbatim>\<open>x || d\<close> on a number-or-undefined: \<open>0\<close> is falsy\<close>
  "or_num x d = (case x of None \<Rightarrow> d | Some r \<Rightarrow> if r = 0 then d else r)"

definition or_int :: "int option \<Rightarrow> int \<Rightarrow> int" where
  "or_int x d = (case x of None \<Rightarrow> d | Some r \<Rightarrow> if r = 0 then d else r)"

fun split_on :: "char \<Rightarrow> string \<Rightarrow> string list" where
  \<comment> \<open>\<^verbatim>\<open>s.split(c)\<close> for a one-character separator\<close>
  "split_on c [] = [[]]"
| "split_on c (x # xs) =
     (if x = c then [] # split_on c xs
      else (case split_on c xs of p # ps \<Rightarrow> (x # p) # ps | [] \<Rightarrow> [[x]]))"

definition index :: "'a list \<Rightarrow> nat \<Rightarrow> 'a option" where
  \<comment> \<open>\<^verbatim>\<open>xs[i]\<close>: undefined past the end\<close>
  "index xs i = (if i < length xs then Some (xs ! i) else None)"

definition interpolate :: "string option \<Rightarrow> string" where
  \<comment> \<open>a string-or-undefined inside a template literal\<close>
  "interpolate v = (case v of None \<Rightarrow> ''undefined'' | Some t \<Rightarrow> t)"

subsection \<open>Numbers\<close>

definition to_double :: "int \<Rightarrow> int" where
  \<comment> \<open>the double nearest to a whole number: 53 bits are kept, a tie goes to the even
      neighbour\<close>
  "to_double z =
     (if \<bar>z\<bar> < 2 ^ 53 then z
      else
        (let n = \<bar>z\<bar>;
             q = 2 ^ nat (bitlen n - 53);
             m = n div q;
             r = n mod q;
             m' = (if q < 2 * r \<or> (2 * r = q \<and> odd m) then m + 1 else m)
         in sgn z * (m' * q)))"

definition js_add :: "int \<Rightarrow> int \<Rightarrow> int" where
  \<comment> \<open>\<^verbatim>\<open>a + b\<close> on two whole doubles (short of the overflow to infinity)\<close>
  "js_add a b = to_double (a + b)"

datatype jsnum = Num int | NaN

subsection \<open>JSON values and what an alert shows of them\<close>

datatype json =
    JNull
  | JBool bool
  | JNum real string  \<comment> \<open>a number, and the text JavaScript prints for it\<close>
  | JStr string
  | JArr "json list"
  | JObj "(string \<times> json) list"

fun js_truthy :: "json \<Rightarrow> bool" where
  "js_truthy JNull = False"
| "js_truthy (JBool b) = b"
| "js_truthy (JNum x t) = (x \<noteq> 0)"
| "js_truthy (JStr t) = (t \<noteq> [])"
| "js_truthy (JArr xs) = True"
| "js_truthy (JObj kvs) = True"

fun join_comma :: "string list \<Rightarrow> string" where
  "join_comma [] = []"
| "join_comma [t] = t"
| "join_comma (t # ts) = t @ '','' @ join_comma ts"

fun display :: "json \<Rightarrow> string" where
  \<comment> \<open>JavaScript's conversion to a string, as \<^verbatim>\<open>alert\<close> and a template literal
      apply it: an object prints as \<^verbatim>\<open>[object Object]\<close>, an array as its elements
      joined by commas, with nothing for a \<^verbatim>\<open>null\<close> element\<close>
  "display JNull = ''null''"
| "display (JBool b) = (if b then ''true'' else ''false'')"
| "display (JNum x t) = t"
| "display (JStr t) = t"
| "display (JArr xs) = join_comma (map (\<lambda>j. if j = JNull then [] else display j) xs)"
| "display (JObj kvs) = ''[object Object]''"

definition or_json :: "json option \<Rightarrow> string \<Rightarrow> string" where
  \<comment> \<open>what \<^verbatim>\<open>alert(v || d)\<close> shows for a JSON value or undefined \<open>v\<close> and a string
      literal \<open>d\<close>\<close>
  "or_json v d = (case v of None \<Rightarrow> d | Some j \<Rightarrow> if js_truthy j then display j else d)"

subsection \<open>Property lookup on a plain object\<close>

text \<open>
  A plain object, such as one parsed from JSON or the literal \<^verbatim>\<open>{}\<close>, is the map of its
  own properties. Reading \<^verbatim>\<open>obj[k]\<close> for a key that is not its own goes on to
  \<^verbatim>\<open>Object.prototype\<close>, whose properties are functions (and, for
  \<^verbatim>\<open>__proto__\<close>, the prototype itself): values that are truthy and have none of the
  fields the code reads.
\<close>

definition object_prototype_names :: "string list" where
  "object_prototype_names =
     [''constructor'', ''hasOwnProperty'', ''isPrototypeOf'', ''propertyIsEnumerable'',
      ''toLocaleString'', ''toString'', ''valueOf'', ''__proto__'', ''__defineGetter__'',
      ''__defineSetter__'', ''__lookupGetter__'', ''__lookupSetter__'']"

datatype 'a property = Undefined | Own 'a | Inherited

definition get_property :: "(string \<rightharpoonup> 'a) \<Rightarrow> string \<Rightarrow> 'a property" where
  \<comment> \<open>\<^verbatim>\<open>obj[k]\<close>\<close>
  "get_property obj k =
     (case obj k of
        Some v \<Rightarrow> Own v
      | None \<Rightarrow> if k \<in> set object_prototype_names then Inherited else Undefined)"

subsection \<open>Errors and promises\<close>

record js_error =
  err_message :: "string option"  \<comment> \<open>\<^verbatim>\<open>error.message\<close>\<close>
  err_response_error :: "json option"  \<comment> \<open>\<^verbatim>\<open>error.response?.data?.error\<close>\<close>
  err_response_detail :: "json option"  \<comment> \<open>\<^verbatim>\<open>error.response?.data?.detail\<close>\<close>

datatype 'a promise = Resolved 'a | Rejected js_error

subsection \<open>Files and their encoding\<close>

record File =
  file_name :: string
  dataURL :: "string option"
    \<comment> \<open>what \<^verbatim>\<open>FileReader.readAsDataURL\<close> yields; \<open>None\<close> when the read fails\<close>

definition is_data_url :: "string \<Rightarrow> string \<Rightarrow> string \<Rightarrow> bool" where
  \<comment> \<open>\<open>u\<close> is the data URL of media type \<open>mime\<close> with base64 payload \<open>b64\<close>\<close>
  "is_data_url u mime b64 =
     (u = ''data:'' @ mime @ '';base64,'' @ b64 \<and> CHR '','' \<notin> set mime \<and> CHR '','' \<notin> set b64)"

definition read_error :: js_error where
  \<comment> \<open>the event \<^verbatim>\<open>reader.onerror\<close> receives: it has no message and no response\<close>
  "read_error = \<lparr>err_message = None, err_response_error = None, err_response_detail = None\<rparr>"

definition fileToBase64 :: "File \<Rightarrow> (string option) promise" where
  \<comment> \<open>part\_000 lines 32-43 and part\_001 lines 157-167\<close>
  "fileToBase64 f =
     (case dataURL f of
        None \<Rightarrow> Rejected read_error
      | Some r \<Rightarrow> Resolved (index (split_on CHR '','' r) 1))"

definition fileToBase64_old :: "File \<Rightarrow> (string option) option" where
  \<comment> \<open>App\_old.tsx lines 98-107: no \<^verbatim>\<open>onerror\<close>, so the promise of an
      unreadable file never settles (\<open>None\<close>)\<close>
  "fileToBase64_old f =
     (case dataURL f of
        None \<Rightarrow> None
      | Some r \<Rightarrow> Some (index (split_on CHR '','' r) 1))"

subsection \<open>Requests, responses and effects\<close>

record VirtualTryonResponse =
  success :: bool
  result_image :: "string option"
  processing_time :: "real option"
  cost :: "real option"
  error :: "string option"
  message :: "string option"  \<comment> \<open>declared by App\_old.tsx only\<close>
  is_test_mode :: "bool option"  \<comment> \<open>declared by App\_old.tsx only\<close>

datatype body =
    TryonBody (person_image: "string option") (garment_image: "string option")
      (quality: "string option")
  | LoginBody string string
  | RegisterBody string string string
  | NoBody

datatype effect =
    Alert string
  | Http string string "string option" body
      \<comment> \<open>method, URL, \<^verbatim>\<open>Authorization\<close> header, body\<close>
  | PopupLater string "real option" "real option"
      \<comment> \<open>part\_000: \<^verbatim>\<open>setTimeout\<close> of the pop-up callback, which has captured the
          image, the processing time and the cost of the response\<close>
  | WindowOpen  \<comment> \<open>\<^verbatim>\<open>window.open('', '_blank')\<close>\<close>
  | DocumentWrite string string string
      \<comment> \<open>the page written into the new window: image, time text, cost text\<close>

fun is_request :: "effect \<Rightarrow> bool" where
  "is_request (Http _ _ _ _) = True"
| "is_request _ = False"


definition requests :: "effect list \<Rightarrow> effect list" where
  "requests es = filter is_request es"


fun alert_texts :: "effect list \<Rightarrow> string list" where
  "alert_texts [] = []"
| "alert_texts (Alert m # es) = m # alert_texts es"
| "alert_texts (e # es) = alert_texts es"

datatype 'a async = Completed 'a | Suspended 'a
  \<comment> \<open>an async handler that ran to its end, or that waits for ever on a promise that never
      settles; either way with the state and the effects it left\<close>

fun left :: "'a async \<Rightarrow> 'a" where
  "left (Completed x) = x"
| "left (Suspended x) = x"

fun completed :: "'a async \<Rightarrow> bool" where
  "completed (Completed x) = True"
| "completed (Suspended x) = False"

subsection \<open>What a screen shows of a submission\<close>

text \<open>
  The specification's \<^verbatim>\<open>TryonResult\<close> is either a success value or a failure value.
  The screens have no such cell: a success is the result card, rendered while the result
  cell is a non-empty string, and a failure is an error message, raised as an alert or (in
  the legacy screen) kept in the error cell.
\<close>

datatype TryonResult = Success string | Failure string

definition shown :: "string option \<Rightarrow> string list \<Rightarrow> TryonResult list" where
  "shown img errors =
     (case img of None \<Rightarrow> [] | Some r \<Rightarrow> if r = [] then [] else [Success r])
     @ map Failure errors"

subsection \<open>The texts shown to the user\<close>

definition txt_upload_both :: string where
  "txt_upload_both = [CHR 0xEC, CHR 0x9D, CHR 0xB8, CHR 0xEB, CHR 0xAC, CHR 0xBC, CHR 0x20,
     CHR 0xEC, CHR 0x82, CHR 0xAC, CHR 0xEC, CHR 0xA7, CHR 0x84, CHR 0xEA, CHR 0xB3,
     CHR 0xBC, CHR 0x20, CHR 0xEC, CHR 0x9D, CHR 0x98, CHR 0xEC, CHR 0x83, CHR 0x81,
     CHR 0x20, CHR 0xEC, CHR 0x82, CHR 0xAC, CHR 0xEC, CHR 0xA7, CHR 0x84, CHR 0xEC,
     CHR 0x9D, CHR 0x84, CHR 0x20, CHR 0xEB, CHR 0xAA, CHR 0xA8, CHR 0xEB, CHR 0x91,
     CHR 0x90, CHR 0x20, CHR 0xEC, CHR 0x97, CHR 0x85, CHR 0xEB, CHR 0xA1, CHR 0x9C,
     CHR 0xEB, CHR 0x93, CHR 0x9C, CHR 0xED, CHR 0x95, CHR 0xB4, CHR 0xEC, CHR 0xA3,
     CHR 0xBC, CHR 0xEC, CHR 0x84, CHR 0xB8, CHR 0xEC, CHR 0x9A, CHR 0x94] @ ''.''"
  \<comment> \<open>in English: asks to upload both the person photo and the garment photo\<close>

definition txt_login_failed :: string where
  "txt_login_failed = [CHR 0xEB, CHR 0xA1, CHR 0x9C, CHR 0xEA, CHR 0xB7, CHR 0xB8, CHR 0xEC,
     CHR 0x9D, CHR 0xB8, CHR 0x20, CHR 0xEC, CHR 0x8B, CHR 0xA4, CHR 0xED, CHR 0x8C,
     CHR 0xA8]"
  \<comment> \<open>in English: login failed\<close>

definition txt_register_failed :: string where
  "txt_register_failed = [CHR 0xED, CHR 0x9A, CHR 0x8C, CHR 0xEC, CHR 0x9B, CHR 0x90,
     CHR 0xEA, CHR 0xB0, CHR 0x80, CHR 0xEC, CHR 0x9E, CHR 0x85, CHR 0x20, CHR 0xEC,
     CHR 0x8B, CHR 0xA4, CHR 0xED, CHR 0x8C, CHR 0xA8]"
  \<comment> \<open>in English: sign-up failed\<close>

definition txt_tryon_failed :: string where
  "txt_tryon_failed = [CHR 0xEA, CHR 0xB0, CHR 0x80, CHR 0xEC, CHR 0x83, CHR 0x81, CHR 0x20,
     CHR 0xED, CHR 0x94, CHR 0xBC, CHR 0xED, CHR 0x8C, CHR 0x85, CHR 0x20, CHR 0xEC,
     CHR 0x8B, CHR 0xA4, CHR 0xED, CHR 0x8C, CHR 0xA8]"
  \<comment> \<open>in English: virtual fitting failed\<close>

definition txt_tryon_error :: string where
  "txt_tryon_error = [CHR 0xEA, CHR 0xB0, CHR 0x80, CHR 0xEC, CHR 0x83, CHR 0x81, CHR 0x20,
     CHR 0xED, CHR 0x94, CHR 0xBC, CHR 0xED, CHR 0x8C, CHR 0x85, CHR 0x20, CHR 0xEC,
     CHR 0x98, CHR 0xA4, CHR 0xEB, CHR 0xA5, CHR 0x98]"
  \<comment> \<open>in English: virtual fitting error\<close>

definition txt_select_both :: string where
  "txt_select_both = [CHR 0xEC, CHR 0x9D, CHR 0xB8, CHR 0xEB, CHR 0xAC, CHR 0xBC, CHR 0x20,
     CHR 0xEC, CHR 0x82, CHR 0xAC, CHR 0xEC, CHR 0xA7, CHR 0x84, CHR 0xEA, CHR 0xB3,
     CHR 0xBC, CHR 0x20, CHR 0xEC, CHR 0x9D, CHR 0x98, CHR 0xEC, CHR 0x83, CHR 0x81,
     CHR 0x20, CHR 0xEC, CHR 0x82, CHR 0xAC, CHR 0xEC, CHR 0xA7, CHR 0x84, CHR 0xEC,
     CHR 0x9D, CHR 0x84, CHR 0x20, CHR 0xEB, CHR 0xAA, CHR 0xA8, CHR 0xEB, CHR 0x91,
     CHR 0x90, CHR 0x20, CHR 0xEC, CHR 0x84, CHR 0xA0, CHR 0xED, CHR 0x83, CHR 0x9D,
     CHR 0xED, CHR 0x95, CHR 0xB4, CHR 0xEC, CHR 0xA3, CHR 0xBC, CHR 0xEC, CHR 0x84,
     CHR 0xB8, CHR 0xEC, CHR 0x9A, CHR 0x94] @ ''.''"
  \<comment> \<open>in English: asks to select both the person photo and the garment photo\<close>

definition txt_unknown_error :: string where
  "txt_unknown_error = [CHR 0xEC, CHR 0x95, CHR 0x8C, CHR 0x20, CHR 0xEC, CHR 0x88,
     CHR 0x98, CHR 0x20, CHR 0xEC, CHR 0x97, CHR 0x86, CHR 0xEB, CHR 0x8A, CHR 0x94,
     CHR 0x20, CHR 0xEC, CHR 0x98, CHR 0xA4, CHR 0xEB, CHR 0xA5, CHR 0x98, CHR 0xEA,
     CHR 0xB0, CHR 0x80, CHR 0x20, CHR 0xEB, CHR 0xB0, CHR 0x9C, CHR 0xEC, CHR 0x83,
     CHR 0x9D, CHR 0xED, CHR 0x96, CHR 0x88, CHR 0xEC, CHR 0x8A, CHR 0xB5, CHR 0xEB,
     CHR 0x8B, CHR 0x88, CHR 0xEB, CHR 0x8B, CHR 0xA4] @ ''.''"
  \<comment> \<open>in English: an unknown error occurred\<close>

definition txt_error_prefix :: string where
  "txt_error_prefix = [CHR 0xEC, CHR 0x98, CHR 0xA4, CHR 0xEB, CHR 0xA5, CHR 0x98] @ '':'' @
     [CHR 0x20]"
  \<comment> \<open>in English: the prefix error-colon-space\<close>

definition txt_retry_later :: string where
  "txt_retry_later = [CHR 0xEA, CHR 0xB0, CHR 0x80, CHR 0xEC, CHR 0x83, CHR 0x81, CHR 0x20,
     CHR 0xED, CHR 0x94, CHR 0xBC, CHR 0xED, CHR 0x8C, CHR 0x85, CHR 0x20, CHR 0xEC,
     CHR 0xA4, CHR 0x91, CHR 0x20, CHR 0xEC, CHR 0x98, CHR 0xA4, CHR 0xEB, CHR 0xA5,
     CHR 0x98, CHR 0xEA, CHR 0xB0, CHR 0x80, CHR 0x20, CHR 0xEB, CHR 0xB0, CHR 0x9C,
     CHR 0xEC, CHR 0x83, CHR 0x9D, CHR 0xED, CHR 0x96, CHR 0x88, CHR 0xEC, CHR 0x8A,
     CHR 0xB5, CHR 0xEB, CHR 0x8B, CHR 0x88, CHR 0xEB, CHR 0x8B, CHR 0xA4] @ ''.'' @
     [CHR 0x20, CHR 0xEB, CHR 0x8B, CHR 0xA4, CHR 0xEC, CHR 0x8B, CHR 0x9C, CHR 0x20,
     CHR 0xEC, CHR 0x8B, CHR 0x9C, CHR 0xEB, CHR 0x8F, CHR 0x84, CHR 0xED, CHR 0x95,
     CHR 0xB4, CHR 0xEC, CHR 0xA3, CHR 0xBC, CHR 0xEC, CHR 0x84, CHR 0xB8, CHR 0xEC,
     CHR 0x9A, CHR 0x94] @ ''.''"
  \<comment> \<open>in English: an error occurred during the virtual fitting, please try again\<close>

definition txt_starting :: string where
  "txt_starting = [CHR 0xEA, CHR 0xB0, CHR 0x80, CHR 0xEC, CHR 0x83, CHR 0x81, CHR 0x20,
     CHR 0xED, CHR 0x94, CHR 0xBC, CHR 0xED, CHR 0x8C, CHR 0x85, CHR 0xEC, CHR 0x9D,
     CHR 0x84, CHR 0x20, CHR 0xEC, CHR 0x8B, CHR 0x9C, CHR 0xEC, CHR 0x9E, CHR 0x91,
     CHR 0xED, CHR 0x95, CHR 0xA9, CHR 0xEB, CHR 0x8B, CHR 0x88, CHR 0xEB, CHR 0x8B,
     CHR 0xA4] @ ''...''"
  \<comment> \<open>in English: the virtual fitting starts\<close>

definition txt_processing :: string where
  "txt_processing = [CHR 0xEC, CHR 0x9D, CHR 0xB4, CHR 0xEB, CHR 0xAF, CHR 0xB8, CHR 0xEC,
     CHR 0xA7, CHR 0x80, CHR 0x20, CHR 0xEC, CHR 0xB2, CHR 0x98, CHR 0xEB, CHR 0xA6,
     CHR 0xAC, CHR 0x20, CHR 0xEC, CHR 0xA4, CHR 0x91] @ ''...''"
  \<comment> \<open>in English: processing the images\<close>

definition txt_completed :: string where
  "txt_completed = [CHR 0xEA, CHR 0xB0, CHR 0x80, CHR 0xEC, CHR 0x83, CHR 0x81, CHR 0x20,
     CHR 0xED, CHR 0x94, CHR 0xBC, CHR 0xED, CHR 0x8C, CHR 0x85, CHR 0xEC, CHR 0x9D,
     CHR 0xB4, CHR 0x20, CHR 0xEC, CHR 0x99, CHR 0x84, CHR 0xEB, CHR 0xA3, CHR 0x8C,
     CHR 0xEB, CHR 0x90, CHR 0x98, CHR 0xEC, CHR 0x97, CHR 0x88, CHR 0xEC, CHR 0x8A,
     CHR 0xB5, CHR 0xEB, CHR 0x8B, CHR 0x88, CHR 0xEB, CHR 0x8B, CHR 0xA4] @ ''!''"
  \<comment> \<open>in English: the virtual fitting is complete\<close>

definition txt_time_open :: string where
  "txt_time_open = [CHR 0x20] @ ''('' @ [CHR 0xEC, CHR 0xB2, CHR 0x98, CHR 0xEB, CHR 0xA6,
     CHR 0xAC, CHR 0x20, CHR 0xEC, CHR 0x8B, CHR 0x9C, CHR 0xEA, CHR 0xB0, CHR 0x84] @ '':''
     @ [CHR 0x20]"
  \<comment> \<open>in English: opens the processing-time note\<close>

definition txt_time_close :: string where
  "txt_time_close = [CHR 0xEC, CHR 0xB4, CHR 0x88] @ '')''"
  \<comment> \<open>in English: seconds, closing the note\<close>

definition txt_dev_mode :: string where
  "txt_dev_mode = [CHR 0x20] @ ''['' @ [CHR 0xEA, CHR 0xB0, CHR 0x9C, CHR 0xEB, CHR 0xB0,
     CHR 0x9C, CHR 0x20, CHR 0xEB, CHR 0xAA, CHR 0xA8, CHR 0xEB, CHR 0x93, CHR 0x9C] @ '']''"
  \<comment> \<open>in English: development-mode tag\<close>

definition txt_fitting_failed :: string where
  "txt_fitting_failed = [CHR 0xEA, CHR 0xB0, CHR 0x80, CHR 0xEC, CHR 0x83, CHR 0x81,
     CHR 0x20, CHR 0xED, CHR 0x94, CHR 0xBC, CHR 0xED, CHR 0x8C, CHR 0x85, CHR 0xEC,
     CHR 0x97, CHR 0x90, CHR 0x20, CHR 0xEC, CHR 0x8B, CHR 0xA4, CHR 0xED, CHR 0x8C,
     CHR 0xA8, CHR 0xED, CHR 0x96, CHR 0x88, CHR 0xEC, CHR 0x8A, CHR 0xB5, CHR 0xEB,
     CHR 0x8B, CHR 0x88, CHR 0xEB, CHR 0x8B, CHR 0xA4] @ ''.''"
  \<comment> \<open>in English: the virtual fitting failed\<close>

definition txt_network_error :: string where
  "txt_network_error = [CHR 0xEB, CHR 0x84, CHR 0xA4, CHR 0xED, CHR 0x8A, CHR 0xB8,
     CHR 0xEC, CHR 0x9B, CHR 0x8C, CHR 0xED, CHR 0x81, CHR 0xAC, CHR 0x20, CHR 0xEC,
     CHR 0x98, CHR 0xA4, CHR 0xEB, CHR 0xA5, CHR 0x98] @ '':'' @ [CHR 0x20]"
  \<comment> \<open>in English: the prefix network-error-colon-space\<close>

section \<open>The session-aware screen (part\_001)\<close>

record User =
  user_id :: int  \<comment> \<open>the field \<^verbatim>\<open>id\<close>\<close>
  email :: string
  plan :: string
  daily_usage :: int


record PricingPlan =
  name :: string
  price :: real
  daily_limit :: int
  features :: "string list"

datatype view = ViewLogin | ViewRegister | ViewMain

record app_state =
  localStorage :: "string \<rightharpoonup> string"
  user :: "User option"
  loading :: bool
  currentView :: view
  personImage :: "File option"
  garmentImage :: "File option"
  result :: "string option"
  processingTime :: "real option"
  pricingPlans :: "string \<rightharpoonup> PricingPlan"

definition initial_state :: "(string \<rightharpoonup> string) \<Rightarrow> app_state" where
  \<comment> \<open>the \<^verbatim>\<open>useState\<close> defaults of lines 54-65, over the browser's storage\<close>
  "initial_state storage =
     \<lparr>localStorage = storage, user = None, loading = False, currentView = ViewLogin,
      personImage = None, garmentImage = None, result = None, processingTime = None,
      pricingPlans = Map.empty\<rparr>"

definition API_BASE :: string where
  "API_BASE = ''http://localhost:8000/api/v1''"

definition authorization :: "(string \<rightharpoonup> string) \<Rightarrow> string option" where
  \<comment> \<open>the request interceptor, lines 44-50\<close>
  "authorization storage =
     (case storage ''token'' of
        None \<Rightarrow> None
      | Some t \<Rightarrow> if t = [] then None else Some (''Bearer '' @ t))"



definition fetchPricingPlans_settled ::
  "(string \<rightharpoonup> PricingPlan) promise \<Rightarrow> app_state \<Rightarrow> app_state" where
  \<comment> \<open>lines 90-97\<close>
  "fetchPricingPlans_settled answer s =
     (case answer of
        Resolved plans \<Rightarrow> s\<lparr>pricingPlans := plans\<rparr>
      | Rejected e \<Rightarrow> s)"



definition handleLogout :: "app_state \<Rightarrow> app_state" where
  \<comment> \<open>lines 147-154\<close>
  "handleLogout s =
     s\<lparr>localStorage := (localStorage s)(''token'' := None), user := None,
       currentView := ViewLogin, result := None, personImage := None, garmentImage := None\<rparr>"

definition tryon_request :: "app_state \<Rightarrow> string option \<Rightarrow> string option \<Rightarrow> effect" where
  \<comment> \<open>lines 181-185\<close>
  "tryon_request s personBase64 garmentBase64 =
     Http ''POST'' (API_BASE @ ''/virtual-tryon'') (authorization (localStorage s))
       (TryonBody personBase64 garmentBase64 (Some ''standard''))"

definition tryon_try ::
  "VirtualTryonResponse promise \<Rightarrow> File \<Rightarrow> File \<Rightarrow> app_state
     \<Rightarrow> app_state \<times> effect list \<times> js_error option" where
  \<comment> \<open>the \<^verbatim>\<open>try\<close> block, lines 178-200: the state and the effects when the block is
      left, and the error it threw, if any\<close>
  "tryon_try answer p g s =
     (case fileToBase64 p of
        Rejected e \<Rightarrow> (s, [], Some e)
      | Resolved personBase64 \<Rightarrow>
          (case fileToBase64 g of
             Rejected e \<Rightarrow> (s, [], Some e)
           | Resolved garmentBase64 \<Rightarrow>
               (let req = tryon_request s personBase64 garmentBase64 in
                case answer of
                  Rejected e \<Rightarrow> (s, [req], Some e)
                | Resolved d \<Rightarrow>
                    if success d then
                      (let s1 = s\<lparr>result := Some (or_str (result_image d) [])\<rparr>;
                           s2 = s1\<lparr>processingTime := Some (or_num (processing_time d) 0)\<rparr>;
                           s3 = (case user s of
                                   Some u \<Rightarrow>
                                     s2\<lparr>user :=
                                          Some (u\<lparr>daily_usage := js_add (daily_usage u) 1\<rparr>)\<rparr>
                                 | None \<Rightarrow> s2)
                       in (s3, [req], None))
                    else (s, [req, Alert (or_str (error d) txt_tryon_failed)], None))))"

definition handleVirtualTryon ::
  "VirtualTryonResponse promise \<Rightarrow> app_state \<Rightarrow> app_state \<times> effect list" where
  \<comment> \<open>lines 170-205\<close>
  "handleVirtualTryon answer s =
     (case (personImage s, garmentImage s) of
        (Some p, Some g) \<Rightarrow>
          (let s1 = s\<lparr>loading := True\<rparr>;
               (s2, es, thrown) = tryon_try answer p g s1;
               es' = (case thrown of
                        None \<Rightarrow> es
                      | Some e \<Rightarrow> es @ [Alert (or_json (err_response_detail e) txt_tryon_error)])
           in (s2\<lparr>loading := False\<rparr>, es'))
      | _ \<Rightarrow> (s, [Alert txt_upload_both]))"

subsection \<open>What the main view derives from the state\<close>

definition currentPlan :: "app_state \<Rightarrow> PricingPlan property" where
  \<comment> \<open>line 341; \<^verbatim>\<open>null\<close> and \<^verbatim>\<open>undefined\<close> are both \<open>Undefined\<close>\<close>
  "currentPlan s =
     (case user s of None \<Rightarrow> Undefined | Some u \<Rightarrow> get_property (pricingPlans s) (plan u))"

definition remainingUsage :: "app_state \<Rightarrow> jsnum" where
  \<comment> \<open>lines 342-344; an inherited value has no \<^verbatim>\<open>daily_limit\<close>:
      \<^verbatim>\<open>undefined !== -1\<close> holds and \<^verbatim>\<open>undefined - n\<close> is \<^verbatim>\<open>NaN\<close>\<close>
  "remainingUsage s =
     (case currentPlan s of
        Undefined \<Rightarrow> Num (- 1)
      | Own p \<Rightarrow>
          if daily_limit p \<noteq> - 1
          then Num (daily_limit p - or_int (map_option daily_usage (user s)) 0)
          else Num (- 1)
      | Inherited \<Rightarrow> NaN)"

definition tryon_button_disabled :: "app_state \<Rightarrow> bool" where
  \<comment> \<open>line 419\<close>
  "tryon_button_disabled s =
     (personImage s = None \<or> garmentImage s = None \<or> loading s \<or> remainingUsage s = Num 0)"

definition usage_label_shown :: "app_state \<Rightarrow> bool" where
  \<comment> \<open>line 357: the count is printed next to the plan unless it is \<open>-1\<close>\<close>
  "usage_label_shown s = (remainingUsage s \<noteq> Num (- 1))"

definition click_tryon ::
  "VirtualTryonResponse promise \<Rightarrow> app_state \<Rightarrow> app_state \<times> effect list" where
  \<comment> \<open>lines 417-423: a disabled button does not call its handler\<close>
  "click_tryon answer s =
     (if tryon_button_disabled s then (s, []) else handleVirtualTryon answer s)"

definition click_retry :: "app_state \<Rightarrow> app_state" where
  \<comment> \<open>line 458\<close>
  "click_retry s = s\<lparr>result := None\<rparr>"

definition shown_processingTime :: "app_state \<Rightarrow> real option" where
  \<comment> \<open>lines 430-436: the processing time is rendered only inside the result card\<close>
  "shown_processingTime s = (if truthy (result s) then processingTime s else None)"

definition shown_results :: "app_state \<times> effect list \<Rightarrow> TryonResult list" where
  \<comment> \<open>the result card of lines 430-465 and the alerts of a handler run\<close>
  "shown_results h = shown (result (fst h)) (alert_texts (snd h))"

section \<open>The timer-driven screen (part\_000)\<close>

record timer_state =
  personFile :: "File option"
  garmentFile :: "File option"
  result_t :: "string option"  \<comment> \<open>the cell \<^verbatim>\<open>result\<close>\<close>
  loading_t :: bool  \<comment> \<open>the cell \<^verbatim>\<open>loading\<close>\<close>
  progress :: int
  hasExecuted :: bool

definition initial_timer_state :: timer_state where
  \<comment> \<open>lines 18-29\<close>
  "initial_timer_state =
     \<lparr>personFile = None, garmentFile = None, result_t = None, loading_t = False,
      progress = 0, hasExecuted = False\<rparr>"

definition API_BASE_URL :: string where
  "API_BASE_URL = ''http://localhost:8000''"

definition tryon_start_t :: "timer_state \<Rightarrow> timer_state" where
  \<comment> \<open>lines 54-57: the part of the handler that runs before its first \<^verbatim>\<open>await\<close>\<close>
  "tryon_start_t s = s\<lparr>loading_t := True, progress := 0, result_t := None, hasExecuted := True\<rparr>"

definition tryon_try_t ::
  "VirtualTryonResponse promise \<Rightarrow> File \<Rightarrow> File \<Rightarrow> timer_state
     \<Rightarrow> timer_state \<times> effect list \<times> js_error option" where
  \<comment> \<open>the \<^verbatim>\<open>try\<close> block, lines 59-116\<close>
  "tryon_try_t answer p g s =
     (case fileToBase64 p of
        Rejected e \<Rightarrow> (s, [], Some e)
      | Resolved personBase64 \<Rightarrow>
          (case fileToBase64 g of
             Rejected e \<Rightarrow> (s, [], Some e)
           | Resolved garmentBase64 \<Rightarrow>
               (let req = Http ''POST'' (API_BASE_URL @ ''/virtual-tryon'') None
                            (TryonBody personBase64 garmentBase64 None) in
                case answer of
                  Rejected e \<Rightarrow> (s, [req], Some e)
                | Resolved d \<Rightarrow>
                    (case result_image d of
                       Some img \<Rightarrow>
                         if success d \<and> img \<noteq> [] then
                           (s\<lparr>result_t := Some img, progress := 100\<rparr>,
                            [req, PopupLater img (processing_time d) (cost d)], None)
                         else (s, [req, Alert (or_str (error d) txt_unknown_error)], None)
                     | None \<Rightarrow> (s, [req, Alert (or_str (error d) txt_unknown_error)], None)))))"

definition tryon_catch_t :: "js_error \<Rightarrow> effect" where
  \<comment> \<open>the \<^verbatim>\<open>catch\<close> block, lines 117-127\<close>
  "tryon_catch_t e =
     (case err_response_error e of
        Some j \<Rightarrow>
          if js_truthy j then Alert (txt_error_prefix @ display j)
          else if truthy (err_message e)
          then Alert (txt_error_prefix @ interpolate (err_message e))
          else Alert txt_retry_later
      | None \<Rightarrow>
          if truthy (err_message e)
          then Alert (txt_error_prefix @ interpolate (err_message e))
          else Alert txt_retry_later)"

definition popup_callback ::
  "(real \<Rightarrow> string) \<Rightarrow> (real \<Rightarrow> string) \<Rightarrow> bool
     \<Rightarrow> string \<Rightarrow> real option \<Rightarrow> real option \<Rightarrow> effect list" where
  \<comment> \<open>lines 92-110, the callback that \<open>PopupLater img t c\<close> schedules, run 500 ms after
      a success: \<open>fixed1\<close> is \<^verbatim>\<open>toFixed(1)\<close>, \<open>num\<close> the conversion of a number to a
      string, and \<open>opened\<close> tells whether \<^verbatim>\<open>window.open\<close> returned a window (a
      blocked pop-up returns \<^verbatim>\<open>null\<close>)\<close>
  "popup_callback fixed1 num opened img t c =
     (if opened
      then [WindowOpen,
            DocumentWrite img (or_str (map_option fixed1 t) ''N/A'')
              (case c of None \<Rightarrow> ''N/A'' | Some x \<Rightarrow> if x = 0 then ''N/A'' else num x)]
      else [WindowOpen])"

definition tryon_finish_t ::
  "VirtualTryonResponse promise \<Rightarrow> File \<Rightarrow> File \<Rightarrow> timer_state
     \<Rightarrow> timer_state \<times> effect list" where
  \<comment> \<open>lines 59-129: the handler from its first \<^verbatim>\<open>await\<close> on, for the files it
      captured\<close>
  "tryon_finish_t answer p g s =
     (let (s1, es, thrown) = tryon_try_t answer p g s;
          es' = (case thrown of None \<Rightarrow> es | Some e \<Rightarrow> es @ [tryon_catch_t e])
      in (s1\<lparr>loading_t := False\<rparr>, es'))"

definition handleVirtualTryon_t ::
  "VirtualTryonResponse promise \<Rightarrow> timer_state \<Rightarrow> timer_state \<times> effect list" where
  \<comment> \<open>lines 46-130, run to its end with nothing in between\<close>
  "handleVirtualTryon_t answer s =
     (case (personFile s, garmentFile s) of
        (Some p, Some g) \<Rightarrow> tryon_finish_t answer p g (tryon_start_t s)
      | _ \<Rightarrow> (s, [Alert txt_select_both]))"

definition handleReset :: "timer_state \<Rightarrow> timer_state" where
  \<comment> \<open>lines 147-159\<close>
  "handleReset s =
     s\<lparr>personFile := None, garmentFile := None, result_t := None, progress := 0,
       hasExecuted := False\<rparr>"

subsection \<open>The screen as a machine: events, the auto-trigger and its timeout\<close>

text \<open>
  The effect of lines 133-144 runs after a render in which one of
  \<^verbatim>\<open>[personFile, garmentFile, loading, hasExecuted]\<close> changed: its clean-up clears the
  timeout it set before, and it sets a new one of 3000 ms when both files are present,
  nothing is loading and nothing has executed. A file chosen in the picker is a new object,
  so choosing a file always counts as a change. Time is counted in milliseconds.
\<close>

record screen =
  cells :: timer_state
  timer :: "nat option"  \<comment> \<open>milliseconds left on the pending timeout, if one is set\<close>
  inflight :: "(File \<times> File) list"
    \<comment> \<open>the files captured by the handler calls that await their answer, oldest first\<close>

datatype event =
    SelectPerson "File option"
  | SelectGarment "File option"
  | ClickRun
  | ClickReset
  | Elapse nat
  | Settle "VirtualTryonResponse promise"

definition autoCondition :: "timer_state \<Rightarrow> bool" where
  \<comment> \<open>line 134\<close>
  "autoCondition s =
     (personFile s \<noteq> None \<and> garmentFile s \<noteq> None \<and> \<not> loading_t s \<and> \<not> hasExecuted s)"

definition deps_changed :: "timer_state \<Rightarrow> timer_state \<Rightarrow> bool" where
  \<comment> \<open>line 144\<close>
  "deps_changed s s' =
     (personFile s \<noteq> personFile s' \<or> garmentFile s \<noteq> garmentFile s'
      \<or> loading_t s \<noteq> loading_t s' \<or> hasExecuted s \<noteq> hasExecuted s')"

definition rerender :: "bool \<Rightarrow> timer_state \<Rightarrow> screen \<Rightarrow> screen" where
  \<comment> \<open>the cells become \<open>s'\<close>; when a dependency changed the old timeout is cleared and the
      effect sets a new one if its condition holds\<close>
  "rerender changed s' sc =
     sc\<lparr>cells := s',
        timer := (if changed then (if autoCondition s' then Some 3000 else None) else timer sc)\<rparr>"

definition run_button_shown :: "timer_state \<Rightarrow> bool" where
  \<comment> \<open>lines 264-299: the branch that renders the run button\<close>
  "run_button_shown s =
     (\<not> loading_t s \<and> \<not> hasExecuted s \<and> personFile s \<noteq> None \<and> garmentFile s \<noteq> None)"

definition reset_button_shown :: "timer_state \<Rightarrow> bool" where
  \<comment> \<open>lines 264-310: the two branches that render a reset button\<close>
  "reset_button_shown s =
     (\<not> loading_t s \<and> (hasExecuted s \<or> (personFile s \<noteq> None \<and> garmentFile s \<noteq> None)))"

definition call_handler :: "screen \<Rightarrow> screen" where
  \<comment> \<open>\<^verbatim>\<open>handleVirtualTryon()\<close> up to its first \<^verbatim>\<open>await\<close>\<close>
  "call_handler sc =
     (case (personFile (cells sc), garmentFile (cells sc)) of
        (Some p, Some g) \<Rightarrow>
          (rerender (deps_changed (cells sc) (tryon_start_t (cells sc)))
             (tryon_start_t (cells sc)) sc)\<lparr>inflight := inflight sc @ [(p, g)]\<rparr>
      | _ \<Rightarrow> sc)"

fun step :: "event \<Rightarrow> screen \<Rightarrow> screen" where
  "step (SelectPerson f) sc =
     rerender (f \<noteq> None \<or> personFile (cells sc) \<noteq> None) ((cells sc)\<lparr>personFile := f\<rparr>) sc"
| "step (SelectGarment f) sc =
     rerender (f \<noteq> None \<or> garmentFile (cells sc) \<noteq> None) ((cells sc)\<lparr>garmentFile := f\<rparr>) sc"
| "step ClickRun sc = (if run_button_shown (cells sc) then call_handler sc else sc)"
| "step ClickReset sc =
     (if reset_button_shown (cells sc)
      then rerender (deps_changed (cells sc) (handleReset (cells sc))) (handleReset (cells sc)) sc
      else sc)"
| "step (Elapse d) sc =
     (case timer sc of
        None \<Rightarrow> sc
      | Some r \<Rightarrow> if d < r then sc\<lparr>timer := Some (r - d)\<rparr> else call_handler (sc\<lparr>timer := None\<rparr>))"
| "step (Settle answer) sc =
     (case inflight sc of
        [] \<Rightarrow> sc
      | (p, g) # rest \<Rightarrow>
          (let s' = fst (tryon_finish_t answer p g (cells sc))
           in (rerender (deps_changed (cells sc) s') s' sc)\<lparr>inflight := rest\<rparr>))"

fun fires :: "event \<Rightarrow> screen \<Rightarrow> bool" where
  \<comment> \<open>the event lets the pending timeout run out, so that its callback is called\<close>
  "fires (Elapse d) sc = (case timer sc of None \<Rightarrow> False | Some r \<Rightarrow> r \<le> d)"
| "fires _ sc = False"

fun run :: "screen \<Rightarrow> event list \<Rightarrow> screen" where
  "run sc [] = sc"
| "run sc (e # es) = run (step e sc) es"

fun count_fires :: "screen \<Rightarrow> event list \<Rightarrow> nat" where
  "count_fires sc [] = 0"
| "count_fires sc (e # es) = (if fires e sc then 1 else 0) + count_fires (step e sc) es"

definition initial_screen :: screen where
  "initial_screen = \<lparr>cells = initial_timer_state, timer = None, inflight = []\<rparr>"

definition timer_sound :: "screen \<Rightarrow> bool" where
  \<comment> \<open>a timeout is pending only while the condition of the effect holds\<close>
  "timer_sound sc = (timer sc = None \<or> autoCondition (cells sc))"

definition shown_results_t :: "timer_state \<times> effect list \<Rightarrow> TryonResult list" where
  \<comment> \<open>the result card of line 326 and the alerts of a handler run\<close>
  "shown_results_t h = shown (result_t (fst h)) (alert_texts (snd h))"

section \<open>The legacy screen (App\_old.tsx)\<close>

record old_state =
  personImage_old :: "File option"  \<comment> \<open>the cell \<^verbatim>\<open>personImage\<close>\<close>
  garmentImage_old :: "File option"  \<comment> \<open>the cell \<^verbatim>\<open>garmentImage\<close>\<close>
  personImagePreview :: "string option"
  garmentImagePreview :: "string option"
  resultImage :: "string option"
  loading_old :: bool  \<comment> \<open>the cell \<^verbatim>\<open>loading\<close>\<close>
  message_old :: string  \<comment> \<open>the cell \<^verbatim>\<open>message\<close>\<close>
  error_old :: string  \<comment> \<open>the cell \<^verbatim>\<open>error\<close>\<close>
  showComparison :: bool

definition initial_old_state :: old_state where
  \<comment> \<open>lines 16-24\<close>
  "initial_old_state =
     \<lparr>personImage_old = None, garmentImage_old = None, personImagePreview = None,
      garmentImagePreview = None, resultImage = None, loading_old = False, message_old = [],
      error_old = [], showComparison = False\<rparr>"

datatype fetch_answer =
    FetchRejected js_error  \<comment> \<open>\<^verbatim>\<open>fetch\<close> itself rejects: no connection\<close>
  | FetchResponse bool nat string "VirtualTryonResponse promise"
      \<comment> \<open>\<^verbatim>\<open>response.ok\<close>, \<^verbatim>\<open>status\<close>, \<^verbatim>\<open>statusText\<close>, and what
          \<^verbatim>\<open>response.json()\<close> settles to\<close>

definition tryon_try_old ::
  "(real \<Rightarrow> string) \<Rightarrow> fetch_answer \<Rightarrow> old_state \<Rightarrow> old_state \<times> js_error option" where
  \<comment> \<open>lines 56-88, the \<^verbatim>\<open>try\<close> block after the request; \<open>num\<close> is JavaScript's
      conversion of a number to a string\<close>
  "tryon_try_old num answer s =
     (case answer of
        FetchRejected e \<Rightarrow> (s, Some e)
      | FetchResponse ok status statusText parsed \<Rightarrow>
          if \<not> ok then
            (s, Some \<lparr>err_message = Some (''HTTP '' @ num (real status) @ '': '' @ statusText),
                      err_response_error = None, err_response_detail = None\<rparr>)
          else
            (case parsed of
               Rejected e \<Rightarrow> (s, Some e)
             | Resolved d \<Rightarrow>
                 if success d \<and> truthy (result_image d) then
                   (let s1 = s\<lparr>resultImage := result_image d\<rparr>;
                        s2 = s1\<lparr>message_old := or_str (message d) txt_completed\<rparr>;
                        s3 = s2\<lparr>showComparison := True\<rparr>;
                        s4 = (case processing_time d of
                                None \<Rightarrow> s3
                              | Some t \<Rightarrow>
                                  if t = 0 then s3
                                  else s3\<lparr>message_old :=
                                         message_old s3 @ txt_time_open @ num t @ txt_time_close\<rparr>);
                        s5 = (if is_test_mode d = Some True
                              then s4\<lparr>message_old := message_old s4 @ txt_dev_mode\<rparr> else s4)
                    in (s5, None))
                 else
                   (s\<lparr>error_old := or_str (or_opt (error d) (message d)) txt_fitting_failed\<rparr>,
                    None)))"

definition handleTryon ::
  "(real \<Rightarrow> string) \<Rightarrow> fetch_answer \<Rightarrow> old_state \<Rightarrow> (old_state \<times> effect list) async" where
  \<comment> \<open>lines 26-96\<close>
  "handleTryon num answer s =
     (case (personImage_old s, garmentImage_old s) of
        (Some p, Some g) \<Rightarrow>
          (let s1 = s\<lparr>loading_old := True, error_old := [], message_old := txt_starting,
                      resultImage := None, showComparison := False\<rparr> in
           case fileToBase64_old p of
             None \<Rightarrow> Suspended (s1, [])
           | Some personBase64 \<Rightarrow>
               (case fileToBase64_old g of
                  None \<Rightarrow> Suspended (s1, [])
                | Some garmentBase64 \<Rightarrow>
                    (let s2 = s1\<lparr>message_old := txt_processing\<rparr>;
                         req = Http ''POST'' ''http://localhost:8000/api/v1/virtual-tryon'' None
                                 (TryonBody
                                    (Some (''data:image/jpeg;base64,'' @ interpolate personBase64))
                                    (Some (''data:image/jpeg;base64,'' @ interpolate garmentBase64))
                                    None);
                         (s3, thrown) = tryon_try_old num answer s2;
                         s4 = (case thrown of
                                 None \<Rightarrow> s3
                               | Some e \<Rightarrow>
                                   s3\<lparr>error_old := txt_network_error @ interpolate (err_message e)\<rparr>)
                     in Completed (s4\<lparr>loading_old := False\<rparr>, [req]))))
      | _ \<Rightarrow> Completed (s\<lparr>error_old := txt_upload_both\<rparr>, []))"

definition tryon_button_disabled_old :: "old_state \<Rightarrow> bool" where
  \<comment> \<open>line 327\<close>
  "tryon_button_disabled_old s =
     (personImage_old s = None \<or> garmentImage_old s = None \<or> loading_old s)"

definition click_tryon_old ::
  "(real \<Rightarrow> string) \<Rightarrow> fetch_answer \<Rightarrow> old_state \<Rightarrow> (old_state \<times> effect list) async" where
  \<comment> \<open>lines 325-327: a disabled button does not call its handler\<close>
  "click_tryon_old num answer s =
     (if tryon_button_disabled_old s then Completed (s, []) else handleTryon num answer s)"

definition resetAll :: "old_state \<Rightarrow> old_state" where
  \<comment> \<open>lines 141-150\<close>
  "resetAll s =
     s\<lparr>personImage_old := None, garmentImage_old := None, personImagePreview := None,
       garmentImagePreview := None, resultImage := None, showComparison := False,
       message_old := [], error_old := []\<rparr>"

definition shown_results_old :: "old_state \<Rightarrow> TryonResult list" where
  \<comment> \<open>the result image of line 422 and the error box of lines 526-537\<close>
  "shown_results_old s =
     shown (resultImage s) (if error_old s = [] then [] else [error_old s])"

section \<open>Example inputs\<close>

definition demo_person :: File where
  "demo_person = \<lparr>file_name = ''me.jpg'', dataURL = Some ''data:image/jpeg;base64,/9j/4AAQ''\<rparr>"

definition demo_garment :: File where
  "demo_garment =
     \<lparr>file_name = ''shirt.png'', dataURL = Some ''data:image/png;base64,iVBORw0KGgo=''\<rparr>"

definition demo_plans :: "string \<rightharpoonup> PricingPlan" where
  "demo_plans =
     [''free'' \<mapsto> \<lparr>name = ''Free'', price = 0, daily_limit = 5, features = []\<rparr>,
      ''pro'' \<mapsto> \<lparr>name = ''Pro'', price = 29, daily_limit = - 1, features = []\<rparr>]"

definition demo_user :: "string \<Rightarrow> int \<Rightarrow> User" where
  "demo_user p n = \<lparr>user_id = 7, email = ''a@b.c'', plan = p, daily_usage = n\<rparr>"

definition demo_state :: "string \<Rightarrow> int \<Rightarrow> app_state" where
  \<comment> \<open>a logged-in main view with both images chosen\<close>
  "demo_state p n =
     \<lparr>localStorage = [''token'' \<mapsto> ''tok''], user = Some (demo_user p n), loading = False,
      currentView = ViewMain, personImage = Some demo_person,
      garmentImage = Some demo_garment, result = None, processingTime = None,
      pricingPlans = demo_plans\<rparr>"



definition demo_other :: File where
  "demo_other = \<lparr>file_name = ''you.jpg'', dataURL = Some ''data:image/jpeg;base64,AAECAw==''\<rparr>"

definition demo_ok :: VirtualTryonResponse where
  \<comment> \<open>\<^verbatim>\<open>{success: true, result_image: "X", processing_time: 4.2, cost: 0.1}\<close>\<close>
  "demo_ok =
     \<lparr>success = True, result_image = Some ''X'', processing_time = Some 4.2,
      cost = Some 0.1, error = None, message = None, is_test_mode = None\<rparr>"

definition demo_no_face :: VirtualTryonResponse where
  \<comment> \<open>\<^verbatim>\<open>{success: false, error: "no face detected"}\<close>\<close>
  "demo_no_face =
     \<lparr>success = False, result_image = None, processing_time = None, cost = None,
      error = Some ''no face detected'', message = None, is_test_mode = None\<rparr>"

definition demo_no_image :: VirtualTryonResponse where
  \<comment> \<open>\<^verbatim>\<open>{success: true}\<close>\<close>
  "demo_no_image =
     \<lparr>success = True, result_image = None, processing_time = None, cost = None,
      error = None, message = None, is_test_mode = None\<rparr>"

definition demo_timeout :: js_error where
  "demo_timeout =
     \<lparr>err_message = Some ''timeout of 120000ms exceeded'', err_response_error = None,
      err_response_detail = None\<rparr>"

definition demo_num :: "real \<Rightarrow> string" where
  \<comment> \<open>a number printer that is right on the numbers the examples print\<close>
  "demo_num x =
     (if x = 4.2 then ''4.2'' else if x = 0.1 then ''0.1'' else if x = 500 then ''500''
      else ''0'')"

definition demo_timer_state :: timer_state where
  "demo_timer_state =
     initial_timer_state\<lparr>personFile := Some demo_person, garmentFile := Some demo_garment\<rparr>"

definition demo_old_state :: old_state where
  "demo_old_state =
     initial_old_state\<lparr>personImage_old := Some demo_person,
       garmentImage_old := Some demo_garment\<rparr>"

definition demo_waiting :: screen where
  \<comment> \<open>both files chosen, one second of the three gone\<close>
  "demo_waiting =
     run initial_screen
       [SelectPerson (Some demo_person), SelectGarment (Some demo_garment), Elapse 1000]"

definition demo_trace :: "event list" where
  \<comment> \<open>a first pair is submitted by the timeout; then the person is replaced\<close>
  "demo_trace =
     [SelectPerson (Some demo_person), SelectGarment (Some demo_garment), Elapse 3000,
      Settle (Resolved demo_ok), SelectPerson (Some demo_other)]"


definition demo_unreadable :: File where
  "demo_unreadable = \<lparr>file_name = ''gone.jpg'', dataURL = None\<rparr>"

definition demo_fixed1 :: "real \<Rightarrow> string" where
  "demo_fixed1 x = (if x = 4.2 then ''4.2'' else ''0.0'')"

definition demo_stale :: app_state where
  \<comment> \<open>the card of an earlier success is on display\<close>
  "demo_stale = (demo_state ''pro'' 0)\<lparr>result := Some ''OLD''\<rparr>"

definition demo_old_unreadable :: old_state where
  "demo_old_unreadable = demo_old_state\<lparr>personImage_old := Some demo_unreadable\<rparr>"

section \<open>Verified properties\<close>

subsection \<open>Usage accounting of the session-aware screen\<close>





lemma inherited_plan_name:
  assumes "user s = Some u" and "pricingPlans s (plan u) = None"
    and "plan u \<in> set object_prototype_names"
  shows "currentPlan s = Inherited \<and> remainingUsage s = NaN"
  using assms by (simp add: remainingUsage_def currentPlan_def get_property_def)

text \<open>
  Claim C10, as the code has it. When the logged-in user's plan is not a key of the pricing
  catalogue, the usage gate does not disable the button: it is disabled only when an image
  is missing or a submission is loading. When the plan is, moreover, not one of the names
  every object inherits, \<^verbatim>\<open>currentPlan\<close> is undefined, the remaining usage is \<open>-1\<close>
  and no count is printed.
\<close>

theorem unknown_plan_unlimited:
  assumes "user s = Some u" and "pricingPlans s (plan u) = None"
  shows "(tryon_button_disabled s \<longleftrightarrow>
            personImage s = None \<or> garmentImage s = None \<or> loading s)
       \<and> (plan u \<notin> set object_prototype_names \<longrightarrow>
            currentPlan s = Undefined \<and> remainingUsage s = Num (- 1)
            \<and> \<not> usage_label_shown s)"
  using assms
  by (simp add: remainingUsage_def currentPlan_def get_property_def
      tryon_button_disabled_def usage_label_shown_def)

theorem unknown_plan_unlimited_witness:
  "currentPlan (demo_state ''gold'' 1000) = Undefined
   \<and> remainingUsage (demo_state ''gold'' 1000) = Num (- 1)
   \<and> \<not> tryon_button_disabled (demo_state ''gold'' 1000)
   \<and> \<not> tryon_button_disabled (demo_state ''constructor'' 1)"
proof -
  have u: "user (demo_state ''gold'' 1000) = Some (demo_user ''gold'' 1000)"
    and v: "user (demo_state ''constructor'' 1) = Some (demo_user ''constructor'' 1)"
    by (simp_all add: demo_state_def)
  have p: "pricingPlans (demo_state ''gold'' 1000) (plan (demo_user ''gold'' 1000)) = None"
    and q: "pricingPlans (demo_state ''constructor'' 1) (plan (demo_user ''constructor'' 1))
             = None"
    by (simp_all add: demo_state_def demo_user_def demo_plans_def)
  have n: "plan (demo_user ''gold'' 1000) \<notin> set object_prototype_names"
    by (simp add: demo_user_def object_prototype_names_def)
  show ?thesis
    using n unknown_plan_unlimited [OF u p] unknown_plan_unlimited [OF v q]
    by (simp add: demo_state_def)
qed

text \<open>
  The claim has a remaining usage of \<open>-1\<close> for every plan that is absent from the
  catalogue. The plan \<^verbatim>\<open>constructor\<close> is no key of the catalogue, yet the lookup finds
  the function every object inherits under that name: \<^verbatim>\<open>currentPlan\<close> is truthy, the
  remaining usage is \<^verbatim>\<open>NaN\<close>, and it is printed as a count.
\<close>

theorem inherited_name_is_not_unlimited:
  "pricingPlans (demo_state ''constructor'' 1) ''constructor'' = None
   \<and> currentPlan (demo_state ''constructor'' 1) = Inherited
   \<and> remainingUsage (demo_state ''constructor'' 1) = NaN
   \<and> remainingUsage (demo_state ''constructor'' 1) \<noteq> Num (- 1)
   \<and> usage_label_shown (demo_state ''constructor'' 1)"
  by (simp add: remainingUsage_def currentPlan_def get_property_def usage_label_shown_def
      object_prototype_names_def demo_state_def demo_user_def demo_plans_def)

subsection \<open>Logout\<close>

text \<open>
  Claim C6, as the code has it. Logout removes the stored token, clears the user, the result
  and both selected images and shows the login view: the state is the initial one over the
  storage without the token, except for the cells \<open>loading\<close>, \<open>processingTime\<close> and
  \<open>pricingPlans\<close>, which \<^verbatim>\<open>handleLogout\<close> does not write. The processing time is
  rendered only next to a result, so none is shown after logout.
\<close>

theorem handleLogout_resets:
  "handleLogout s =
     (initial_state ((localStorage s)(''token'' := None)))
       \<lparr>loading := loading s, processingTime := processingTime s,
        pricingPlans := pricingPlans s\<rparr>
   \<and> localStorage (handleLogout s) ''token'' = None
   \<and> user (handleLogout s) = None
   \<and> currentView (handleLogout s) = ViewLogin
   \<and> personImage (handleLogout s) = None
   \<and> garmentImage (handleLogout s) = None
   \<and> result (handleLogout s) = None
   \<and> shown_processingTime (handleLogout s) = None"
  by (simp add: handleLogout_def initial_state_def shown_processingTime_def truthy_def)

text \<open>
  The claim has every piece of processing metadata back at its initial value. The cell
  \<open>processingTime\<close> starts as \<open>None\<close> and keeps the previous user's value over a logout.
\<close>

theorem handleLogout_keeps_processingTime:
  "processingTime
     (handleLogout ((demo_state ''free'' 1)\<lparr>result := Some ''X'', processingTime := Some 4.2\<rparr>))
     = Some 4.2
   \<and> processingTime (initial_state Map.empty) = None"
  by (simp add: handleLogout_def initial_state_def demo_state_def)

subsection \<open>Login and registration\<close>




subsection \<open>The images in the request\<close>

lemma split_on_no_sep: "c \<notin> set xs \<Longrightarrow> split_on c xs = [xs]"
  by (induction xs) auto

lemma split_on_first: "c \<notin> set xs \<Longrightarrow> split_on c (xs @ c # ys) = xs # split_on c ys"
  by (induction xs) auto

lemma split_data_url:
  assumes "is_data_url u mime b64"
  shows "index (split_on CHR '','' u) 1 = Some b64"
proof -
  have u: "u = (''data:'' @ mime @ '';base64'') @ CHR '','' # b64"
    using assms by (simp add: is_data_url_def)
  have "CHR '','' \<notin> set (''data:'' @ mime @ '';base64'')"
    using assms by (simp add: is_data_url_def)
  then have "split_on CHR '','' u = (''data:'' @ mime @ '';base64'') # split_on CHR '','' b64"
    unfolding u by (rule split_on_first)
  moreover have "split_on CHR '','' b64 = [b64]"
    using assms by (simp add: is_data_url_def split_on_no_sep)
  ultimately show ?thesis by (simp add: index_def)
qed

lemma fileToBase64_data_url:
  "dataURL f = Some u \<Longrightarrow> is_data_url u mime b64 \<Longrightarrow> fileToBase64 f = Resolved (Some b64)"
  using split_data_url [of u mime b64] by (simp add: fileToBase64_def)

lemma fileToBase64_old_data_url:
  "dataURL f = Some u \<Longrightarrow> is_data_url u mime b64 \<Longrightarrow> fileToBase64_old f = Some (Some b64)"
  using split_data_url [of u mime b64] by (simp add: fileToBase64_old_def)

text \<open>
  Claim C7, as the code has it. Let the two chosen files read as data URLs with base64
  payloads \<open>bp\<close> and \<open>bg\<close>. Whatever the backend answers, the session-aware and the
  timer-driven screen send exactly one request, whose \<^verbatim>\<open>person_image\<close> and
  \<^verbatim>\<open>garment_image\<close> are the bare payloads. The legacy screen sends exactly one
  request too, but puts the fixed prefix \<^verbatim>\<open>data:image/jpeg;base64,\<close> back in front
  of each payload.
\<close>

theorem transmitted_images:
  assumes "dataURL p = Some up" and "is_data_url up mp bp"
    and "dataURL g = Some ug" and "is_data_url ug mg bg"
  shows "(personImage s = Some p \<and> garmentImage s = Some g \<longrightarrow>
            requests (snd (handleVirtualTryon answer s)) =
              [Http ''POST'' (API_BASE @ ''/virtual-tryon'') (authorization (localStorage s))
                 (TryonBody (Some bp) (Some bg) (Some ''standard''))])
       \<and> (personFile t = Some p \<and> garmentFile t = Some g \<longrightarrow>
            requests (snd (handleVirtualTryon_t answer t)) =
              [Http ''POST'' (API_BASE_URL @ ''/virtual-tryon'') None
                 (TryonBody (Some bp) (Some bg) None)])
       \<and> (personImage_old s0 = Some p \<and> garmentImage_old s0 = Some g \<longrightarrow>
            completed (handleTryon num reply s0)
            \<and> snd (left (handleTryon num reply s0)) =
                [Http ''POST'' ''http://localhost:8000/api/v1/virtual-tryon'' None
                   (TryonBody (Some (''data:image/jpeg;base64,'' @ bp))
                      (Some (''data:image/jpeg;base64,'' @ bg)) None)])"
proof -
  note enc = fileToBase64_data_url [OF assms(1,2)] fileToBase64_data_url [OF assms(3,4)]
  note enc_old =
    fileToBase64_old_data_url [OF assms(1,2)] fileToBase64_old_data_url [OF assms(3,4)]
  have a: "personImage s = Some p \<and> garmentImage s = Some g \<longrightarrow>
            requests (snd (handleVirtualTryon answer s)) =
              [Http ''POST'' (API_BASE @ ''/virtual-tryon'') (authorization (localStorage s))
                 (TryonBody (Some bp) (Some bg) (Some ''standard''))]"
    by (simp add: handleVirtualTryon_def tryon_try_def tryon_request_def enc requests_def
        Let_def split: promise.split option.split)
  have b: "personFile t = Some p \<and> garmentFile t = Some g \<longrightarrow>
            requests (snd (handleVirtualTryon_t answer t)) =
              [Http ''POST'' (API_BASE_URL @ ''/virtual-tryon'') None
                 (TryonBody (Some bp) (Some bg) None)]"
    by (simp add: handleVirtualTryon_t_def tryon_finish_t_def tryon_try_t_def
        tryon_start_t_def tryon_catch_t_def enc requests_def Let_def
        split: promise.split option.split)
  have c: "personImage_old s0 = Some p \<and> garmentImage_old s0 = Some g \<longrightarrow>
            completed (handleTryon num reply s0)
            \<and> snd (left (handleTryon num reply s0)) =
                [Http ''POST'' ''http://localhost:8000/api/v1/virtual-tryon'' None
                   (TryonBody (Some (''data:image/jpeg;base64,'' @ bp))
                      (Some (''data:image/jpeg;base64,'' @ bg)) None)]"
    by (simp add: handleTryon_def enc_old interpolate_def Let_def split: prod.split)
  from a b c show ?thesis by blast
qed

theorem transmitted_images_witness:
  "requests (snd (handleVirtualTryon (Resolved demo_ok) (demo_state ''pro'' 0))) =
     [Http ''POST'' ''http://localhost:8000/api/v1/virtual-tryon'' (Some ''Bearer tok'')
        (TryonBody (Some ''/9j/4AAQ'') (Some ''iVBORw0KGgo='') (Some ''standard''))]
   \<and> requests (snd (handleVirtualTryon_t (Resolved demo_ok) demo_timer_state)) =
     [Http ''POST'' ''http://localhost:8000/virtual-tryon'' None
        (TryonBody (Some ''/9j/4AAQ'') (Some ''iVBORw0KGgo='') None)]
   \<and> completed (handleTryon demo_num (FetchRejected demo_timeout) demo_old_state)"
proof -
  have p: "dataURL demo_person = Some ''data:image/jpeg;base64,/9j/4AAQ''"
    and g: "dataURL demo_garment = Some ''data:image/png;base64,iVBORw0KGgo=''"
    by (simp_all add: demo_person_def demo_garment_def)
  have up: "is_data_url ''data:image/jpeg;base64,/9j/4AAQ'' ''image/jpeg'' ''/9j/4AAQ''"
    and ug: "is_data_url ''data:image/png;base64,iVBORw0KGgo='' ''image/png'' ''iVBORw0KGgo=''"
    by (simp_all add: is_data_url_def)
  show ?thesis
    using transmitted_images [OF p up g ug, of "demo_state ''pro'' 0" "Resolved demo_ok"
        demo_timer_state demo_old_state demo_num "FetchRejected demo_timeout"]
    by (simp add: demo_state_def demo_timer_state_def demo_old_state_def API_BASE_def
        API_BASE_URL_def authorization_def)
qed

text \<open>
  The claim has bare base64 in the request of every screen. The legacy screen sends the
  strings \<^verbatim>\<open>data:image/jpeg;base64,...\<close>, also for a garment that is a PNG file.
\<close>

theorem legacy_sends_data_urls:
  "snd (left (handleTryon demo_num (FetchRejected demo_timeout) demo_old_state)) =
     [Http ''POST'' ''http://localhost:8000/api/v1/virtual-tryon'' None
        (TryonBody (Some ''data:image/jpeg;base64,/9j/4AAQ'')
           (Some ''data:image/jpeg;base64,iVBORw0KGgo='') None)]
   \<and> fileToBase64_old demo_person = Some (Some ''/9j/4AAQ'')
   \<and> fileToBase64_old demo_garment = Some (Some ''iVBORw0KGgo='')"
  by (simp add: handleTryon_def fileToBase64_old_def index_def interpolate_def Let_def
      demo_old_state_def initial_old_state_def demo_person_def demo_garment_def
      split: prod.split)

subsection \<open>The auto-trigger of the timer-driven screen\<close>

lemma autoCondition_same_deps: "\<not> deps_changed s s' \<Longrightarrow> autoCondition s' = autoCondition s"
  by (auto simp add: deps_changed_def autoCondition_def)

lemma timer_sound_rerender:
  assumes "timer_sound sc" and "\<not> changed \<Longrightarrow> autoCondition s' = autoCondition (cells sc)"
  shows "timer_sound (rerender changed s' sc)"
  using assms by (auto simp add: timer_sound_def rerender_def)

lemma timer_sound_inflight: "timer_sound (sc\<lparr>inflight := q\<rparr>) = timer_sound sc"
  by (simp add: timer_sound_def)

lemma timer_sound_call_handler: "timer_sound sc \<Longrightarrow> timer_sound (call_handler sc)"
  by (auto simp add: call_handler_def timer_sound_inflight autoCondition_same_deps
      intro!: timer_sound_rerender split: option.split)

lemma timer_sound_step: "timer_sound sc \<Longrightarrow> timer_sound (step e sc)"
proof (cases e)
  case (SelectPerson f)
  assume "timer_sound sc"
  then show ?thesis
    unfolding SelectPerson step.simps
    by (rule timer_sound_rerender) (simp add: autoCondition_def)
next
  case (SelectGarment f)
  assume "timer_sound sc"
  then show ?thesis
    unfolding SelectGarment step.simps
    by (rule timer_sound_rerender) (simp add: autoCondition_def)
next
  case ClickRun
  assume "timer_sound sc"
  then show ?thesis by (simp add: ClickRun timer_sound_call_handler)
next
  case ClickReset
  assume "timer_sound sc"
  then show ?thesis
    by (auto simp add: ClickReset autoCondition_same_deps intro!: timer_sound_rerender)
next
  case (Elapse d)
  assume s: "timer_sound sc"
  have "timer_sound (sc\<lparr>timer := None\<rparr>)" by (simp add: timer_sound_def)
  then have "timer_sound (call_handler (sc\<lparr>timer := None\<rparr>))"
    by (rule timer_sound_call_handler)
  with s show ?thesis
    by (auto simp add: Elapse timer_sound_def split: option.split)
next
  case (Settle answer)
  assume "timer_sound sc"
  then show ?thesis
    by (auto simp add: Settle Let_def timer_sound_inflight autoCondition_same_deps
        intro!: timer_sound_rerender split: list.split)
qed

lemma timer_sound_run: "timer_sound sc \<Longrightarrow> timer_sound (run sc es)"
  by (induction es arbitrary: sc) (simp_all add: timer_sound_step)

lemma timer_sound_initial: "timer_sound initial_screen"
  by (simp add: timer_sound_def initial_screen_def)

lemma hasExecuted_finish:
  "hasExecuted (fst (tryon_finish_t answer p g s)) = hasExecuted s"
  by (simp add: tryon_finish_t_def tryon_try_t_def Let_def
      split: promise.split option.split prod.split)

lemma hasExecuted_call_handler:
  "hasExecuted (cells sc) \<Longrightarrow> hasExecuted (cells (call_handler sc))"
  by (simp add: call_handler_def rerender_def tryon_start_t_def split: option.split)

lemma hasExecuted_kept:
  assumes "hasExecuted (cells sc)" and "e \<noteq> ClickReset"
  shows "hasExecuted (cells (step e sc))"
  using assms
  by (cases e)
    (auto simp add: rerender_def hasExecuted_call_handler hasExecuted_finish Let_def
      split: option.split list.split)

lemma fires_sets_latch:
  assumes "timer_sound sc" and "fires e sc"
  shows "\<not> hasExecuted (cells sc) \<and> hasExecuted (cells (step e sc)) \<and> e \<noteq> ClickReset"
proof (cases e)
  case (Elapse d)
  with assms obtain r where r: "timer sc = Some r" "r \<le> d"
    by (auto split: option.splits)
  with assms(1) have c: "autoCondition (cells sc)" by (simp add: timer_sound_def)
  then obtain p g where "personFile (cells sc) = Some p" "garmentFile (cells sc) = Some g"
    by (auto simp add: autoCondition_def)
  with r c show ?thesis
    by (simp add: Elapse call_handler_def rerender_def tryon_start_t_def autoCondition_def)
qed (use assms in simp_all)

lemma count_fires_bound:
  "timer_sound sc \<Longrightarrow>
     count_fires sc es \<le> (if hasExecuted (cells sc) then 0 else 1) + count_list es ClickReset"
proof (induction es arbitrary: sc)
  case Nil
  then show ?case by simp
next
  case (Cons e es)
  note ih = Cons.IH [OF timer_sound_step [OF Cons.prems, of e]]
  show ?case
  proof (cases "fires e sc")
    case True
    from fires_sets_latch [OF Cons.prems True] ih True show ?thesis by simp
  next
    case False
    show ?thesis
    proof (cases "hasExecuted (cells sc) \<and> e \<noteq> ClickReset")
      case True
      then have "hasExecuted (cells (step e sc))" by (simp add: hasExecuted_kept)
      with ih False True show ?thesis by simp
    next
      case False
      with ih \<open>\<not> fires e sc\<close> show ?thesis by (auto split: if_splits)
    qed
  qed
qed

text \<open>
  Claim C5, as the code has it. From a state in which a timeout is pending only while the
  effect's condition holds (every state reached from the initial screen is one):
  \<^item> the timeout runs out at most once until the next reset, and not at all once a
    submission has executed; so it fires at most once for a pair of files;
  \<^item> choosing or clearing a file drops the pending timeout; a new one of the full 3000 ms
    is set when the effect's condition holds afterwards, so nothing fires within 3000 ms of
    the change;
  \<^item> choosing or clearing a file leaves the latch \<open>hasExecuted\<close> as it is; only
    \<^verbatim>\<open>handleReset\<close> puts it back to false (and then no timeout is pending).
\<close>

theorem auto_trigger_once_per_reset:
  assumes "timer_sound sc"
  shows "count_fires sc es
           \<le> (if hasExecuted (cells sc) then 0 else 1) + count_list es ClickReset
       \<and> timer (step (SelectPerson (Some f)) sc) =
           (if autoCondition ((cells sc)\<lparr>personFile := Some f\<rparr>) then Some 3000 else None)
       \<and> timer (step (SelectGarment (Some f)) sc) =
           (if autoCondition ((cells sc)\<lparr>garmentFile := Some f\<rparr>) then Some 3000 else None)
       \<and> timer (step (SelectPerson None) sc) = None
       \<and> timer (step (SelectGarment None) sc) = None
       \<and> (d < 3000 \<longrightarrow> \<not> fires (Elapse d) (step (SelectPerson f') sc)
                        \<and> \<not> fires (Elapse d) (step (SelectGarment f') sc))
       \<and> hasExecuted (cells (step (SelectPerson f') sc)) = hasExecuted (cells sc)
       \<and> hasExecuted (cells (step (SelectGarment f') sc)) = hasExecuted (cells sc)
       \<and> \<not> hasExecuted (handleReset (cells sc))
       \<and> (reset_button_shown (cells sc) \<longrightarrow>
            \<not> hasExecuted (cells (step ClickReset sc)) \<and> timer (step ClickReset sc) = None)"
proof -
  have none: "timer (step (SelectPerson None) sc) = None"
    "timer (step (SelectGarment None) sc) = None"
    using assms by (auto simp add: rerender_def timer_sound_def autoCondition_def)
  have some: "timer (step (SelectPerson (Some f)) sc) =
      (if autoCondition ((cells sc)\<lparr>personFile := Some f\<rparr>) then Some 3000 else None)"
    "timer (step (SelectGarment (Some f)) sc) =
      (if autoCondition ((cells sc)\<lparr>garmentFile := Some f\<rparr>) then Some 3000 else None)"
    by (simp_all add: rerender_def)
  have quiet: "d < 3000 \<longrightarrow> \<not> fires (Elapse d) (step (SelectPerson f') sc)
                        \<and> \<not> fires (Elapse d) (step (SelectGarment f') sc)"
    using none by (cases f') (auto simp add: rerender_def)
  have latch: "hasExecuted (cells (step (SelectPerson f') sc)) = hasExecuted (cells sc)"
    "hasExecuted (cells (step (SelectGarment f') sc)) = hasExecuted (cells sc)"
    "\<not> hasExecuted (handleReset (cells sc))"
    by (simp_all add: rerender_def handleReset_def)
  have reset: "reset_button_shown (cells sc) \<longrightarrow>
      \<not> hasExecuted (cells (step ClickReset sc)) \<and> timer (step ClickReset sc) = None"
    using assms
    by (auto simp add: rerender_def handleReset_def timer_sound_def autoCondition_def
        deps_changed_def)
  from count_fires_bound [OF assms, of es] none some quiet latch reset show ?thesis
    by blast
qed

theorem auto_trigger_once_per_reset_witness:
  "timer_sound demo_waiting
   \<and> timer demo_waiting = Some 2000
   \<and> timer (step (SelectPerson (Some demo_other)) demo_waiting) = Some 3000
   \<and> \<not> fires (Elapse 2999) (step (SelectPerson (Some demo_other)) demo_waiting)
   \<and> timer (step (SelectGarment None) demo_waiting) = None
   \<and> count_fires demo_waiting [Elapse 2000, Settle (Resolved demo_ok), Elapse 3000] \<le> 1
   \<and> \<not> hasExecuted (cells (step ClickReset demo_waiting))"
proof -
  have w: "demo_waiting =
      \<lparr>cells = demo_timer_state, timer = Some 2000, inflight = []\<rparr>"
    by (simp add: demo_waiting_def initial_screen_def rerender_def autoCondition_def
        demo_timer_state_def initial_timer_state_def)
  have s: "timer_sound demo_waiting"
    unfolding demo_waiting_def by (rule timer_sound_run) (rule timer_sound_initial)
  show ?thesis
    using s auto_trigger_once_per_reset [OF s,
        of "[Elapse 2000, Settle (Resolved demo_ok), Elapse 3000]" demo_other 2999
          "Some demo_other"]
    by (simp add: w autoCondition_def reset_button_shown_def demo_timer_state_def
        initial_timer_state_def)
qed

text \<open>
  The claim has the latch reset whenever a file is replaced. After the first pair has been
  submitted by the timeout, choosing another person photo leaves \<open>hasExecuted\<close> true and
  sets no timeout: the new pair is never submitted by the timer.
\<close>

theorem latch_survives_replacement:
  "hasExecuted (cells (run initial_screen demo_trace))
   \<and> personFile (cells (run initial_screen demo_trace)) = Some demo_other
   \<and> timer (run initial_screen demo_trace) = None
   \<and> count_fires initial_screen (demo_trace @ [Elapse 3000, Elapse 3000]) = 1"
  by (simp add: demo_trace_def initial_screen_def initial_timer_state_def rerender_def
      autoCondition_def deps_changed_def call_handler_def tryon_start_t_def
      tryon_finish_t_def tryon_try_t_def fileToBase64_def index_def Let_def
      demo_person_def demo_garment_def demo_ok_def)

subsection \<open>The guards of a submission\<close>

text \<open>
  Claim C1, as the code has it. A handler called while a file is missing raises one message
  and returns: it sends no request and leaves the result and the loading flag as they
  were (the two newer screens leave the whole state; the legacy screen writes its error
  cell). No handler looks at the loading flag. A second submission is kept out by the
  screen: the button of the session-aware and of the legacy screen is disabled while a
  submission is loading, and in the timer-driven screen the run button is not rendered and
  no timeout is pending while a submission is loading or a file is missing.
\<close>

theorem submit_guards:
  "(personImage s = None \<or> garmentImage s = None \<longrightarrow>
      handleVirtualTryon answer s = (s, [Alert txt_upload_both]))
   \<and> (personFile t = None \<or> garmentFile t = None \<longrightarrow>
      handleVirtualTryon_t answer t = (t, [Alert txt_select_both]))
   \<and> (personImage_old s0 = None \<or> garmentImage_old s0 = None \<longrightarrow>
      handleTryon num reply s0 = Completed (s0\<lparr>error_old := txt_upload_both\<rparr>, []))
   \<and> (loading s \<longrightarrow> click_tryon answer s = (s, []))
   \<and> (loading_old s0 \<longrightarrow> click_tryon_old num reply s0 = Completed (s0, []))
   \<and> (timer_sound sc \<and>
       (loading_t (cells sc) \<or> personFile (cells sc) = None \<or> garmentFile (cells sc) = None)
       \<longrightarrow> step ClickRun sc = sc \<and> step (Elapse d) sc = sc)"
proof -
  have a: "personImage s = None \<or> garmentImage s = None \<longrightarrow>
      handleVirtualTryon answer s = (s, [Alert txt_upload_both])"
    by (auto simp add: handleVirtualTryon_def split: option.split)
  have b: "personFile t = None \<or> garmentFile t = None \<longrightarrow>
      handleVirtualTryon_t answer t = (t, [Alert txt_select_both])"
    by (auto simp add: handleVirtualTryon_t_def split: option.split)
  have c: "personImage_old s0 = None \<or> garmentImage_old s0 = None \<longrightarrow>
      handleTryon num reply s0 = Completed (s0\<lparr>error_old := txt_upload_both\<rparr>, [])"
    by (auto simp add: handleTryon_def split: option.split)
  have d: "loading s \<longrightarrow> click_tryon answer s = (s, [])"
    by (simp add: click_tryon_def tryon_button_disabled_def)
  have e: "loading_old s0 \<longrightarrow> click_tryon_old num reply s0 = Completed (s0, [])"
    by (simp add: click_tryon_old_def tryon_button_disabled_old_def)
  have f: "timer_sound sc \<and>
       (loading_t (cells sc) \<or> personFile (cells sc) = None \<or> garmentFile (cells sc) = None)
       \<longrightarrow> step ClickRun sc = sc \<and> step (Elapse d) sc = sc"
    by (auto simp add: timer_sound_def autoCondition_def run_button_shown_def)
  from a b c d e f show ?thesis by blast
qed

theorem submit_guards_witness:
  "requests (snd (handleVirtualTryon (Resolved demo_ok)
      ((demo_state ''pro'' 0)\<lparr>garmentImage := None\<rparr>))) = []
   \<and> result (fst (handleVirtualTryon (Resolved demo_ok)
      ((demo_state ''pro'' 0)\<lparr>garmentImage := None\<rparr>))) = None
   \<and> \<not> loading (fst (handleVirtualTryon (Resolved demo_ok)
      ((demo_state ''pro'' 0)\<lparr>garmentImage := None\<rparr>)))
   \<and> requests (snd (handleVirtualTryon_t (Resolved demo_ok) initial_timer_state)) = []
   \<and> requests (snd (left (handleTryon demo_num (FetchRejected demo_timeout)
      initial_old_state))) = []
   \<and> requests (snd (click_tryon (Resolved demo_ok)
      ((demo_state ''pro'' 0)\<lparr>loading := True\<rparr>))) = []
   \<and> requests (snd (left (click_tryon_old demo_num (FetchRejected demo_timeout)
      (demo_old_state\<lparr>loading_old := True\<rparr>)))) = []
   \<and> step (Elapse 5000) initial_screen = initial_screen"
  using
    submit_guards [of "(demo_state ''pro'' 0)\<lparr>garmentImage := None\<rparr>" "Resolved demo_ok"
      initial_timer_state initial_old_state demo_num "FetchRejected demo_timeout"
      initial_screen 5000]
    submit_guards [of "(demo_state ''pro'' 0)\<lparr>loading := True\<rparr>" "Resolved demo_ok"
      initial_timer_state "demo_old_state\<lparr>loading_old := True\<rparr>" demo_num
      "FetchRejected demo_timeout" initial_screen 5000]
    timer_sound_initial
  by (simp add: requests_def demo_state_def initial_timer_state_def initial_old_state_def
      initial_screen_def)

text \<open>
  The claim has the handler itself return when a submission is in flight. Called in a state
  whose loading flag is set, each of the three handlers sends its request all the same.
\<close>

theorem handler_ignores_loading:
  "loading ((demo_state ''pro'' 0)\<lparr>loading := True\<rparr>)
   \<and> requests (snd (handleVirtualTryon (Resolved demo_ok)
        ((demo_state ''pro'' 0)\<lparr>loading := True\<rparr>))) =
      [Http ''POST'' ''http://localhost:8000/api/v1/virtual-tryon'' (Some ''Bearer tok'')
         (TryonBody (Some ''/9j/4AAQ'') (Some ''iVBORw0KGgo='') (Some ''standard''))]
   \<and> result (fst (handleVirtualTryon (Resolved demo_ok)
        ((demo_state ''pro'' 0)\<lparr>loading := True\<rparr>))) = Some ''X''
   \<and> requests (snd (handleVirtualTryon_t (Resolved demo_ok)
        (demo_timer_state\<lparr>loading_t := True\<rparr>))) \<noteq> []
   \<and> requests (snd (left (handleTryon demo_num (FetchRejected demo_timeout)
        (demo_old_state\<lparr>loading_old := True\<rparr>)))) \<noteq> []"
  by (simp add: handleVirtualTryon_def tryon_try_def tryon_request_def
      handleVirtualTryon_t_def tryon_finish_t_def tryon_try_t_def tryon_start_t_def
      handleTryon_def fileToBase64_def fileToBase64_old_def index_def interpolate_def
      requests_def authorization_def API_BASE_def or_str_def Let_def
      demo_state_def demo_timer_state_def initial_timer_state_def demo_old_state_def
      initial_old_state_def demo_person_def demo_garment_def demo_ok_def
      split: prod.split)

subsection \<open>The outcome of a submission\<close>

lemma txt_nonempty:
  "txt_upload_both \<noteq> []" "txt_login_failed \<noteq> []" "txt_register_failed \<noteq> []"
  "txt_tryon_failed \<noteq> []" "txt_tryon_error \<noteq> []" "txt_select_both \<noteq> []"
  "txt_unknown_error \<noteq> []" "txt_error_prefix \<noteq> []" "txt_retry_later \<noteq> []"
  "txt_fitting_failed \<noteq> []" "txt_network_error \<noteq> []"
  by (simp_all add: txt_upload_both_def txt_login_failed_def txt_register_failed_def
      txt_tryon_failed_def txt_tryon_error_def txt_select_both_def txt_unknown_error_def
      txt_error_prefix_def txt_retry_later_def txt_fitting_failed_def txt_network_error_def)

lemma or_str_nonempty: "d \<noteq> [] \<Longrightarrow> or_str v d \<noteq> []"
  by (simp add: or_str_def split: option.split)

lemma alert_texts_append: "alert_texts (xs @ ys) = alert_texts xs @ alert_texts ys"
  by (induction xs rule: alert_texts.induct) simp_all

lemma alert_texts_catch_t: "length (alert_texts [tryon_catch_t e]) = 1"
  by (simp add: tryon_catch_t_def split: option.split)

lemma handleVirtualTryon_t_outcome:
  assumes "personFile t = Some p" and "garmentFile t = Some g"
  shows "\<not> loading_t (fst (handleVirtualTryon_t answer t))
       \<and> length (shown_results_t (handleVirtualTryon_t answer t)) = 1"
  using assms
  by (cases answer)
    (auto simp add: handleVirtualTryon_t_def tryon_finish_t_def tryon_try_t_def
      tryon_start_t_def shown_results_t_def shown_def fileToBase64_def Let_def
      alert_texts_catch_t split: option.split)

lemma tryon_try_old_outcome:
  assumes "resultImage s1 = None" and "error_old s1 = []"
    and "tryon_try_old num reply s1 = (s3, thrown)"
  shows "(thrown = None \<longrightarrow> length (shown_results_old s3) = 1)
       \<and> (thrown \<noteq> None \<longrightarrow> resultImage s3 = None)"
  using assms txt_nonempty or_str_nonempty [of txt_fitting_failed]
  by (cases reply)
    (auto simp add: tryon_try_old_def shown_results_old_def shown_def truthy_def Let_def
      split: promise.splits option.splits if_splits)

lemma handleTryon_outcome:
  assumes "personImage_old s0 = Some p" and "garmentImage_old s0 = Some g"
  shows "completed (handleTryon num reply s0) = (dataURL p \<noteq> None \<and> dataURL g \<noteq> None)
       \<and> (completed (handleTryon num reply s0) \<longrightarrow>
            \<not> loading_old (fst (left (handleTryon num reply s0)))
            \<and> length (shown_results_old (fst (left (handleTryon num reply s0)))) = 1)"
proof (cases "dataURL p = None \<or> dataURL g = None")
  case True
  with assms show ?thesis
    by (auto simp add: handleTryon_def fileToBase64_old_def Let_def split: option.split)
next
  case False
  then obtain a b where enc: "fileToBase64_old p = Some a" "fileToBase64_old g = Some b"
    by (auto simp add: fileToBase64_old_def)
  define s2 where "s2 =
    s0\<lparr>loading_old := True, error_old := [], message_old := txt_starting,
       resultImage := None, showComparison := False, message_old := txt_processing\<rparr>"
  obtain s3 thrown where t: "tryon_try_old num reply s2 = (s3, thrown)"
    by (cases "tryon_try_old num reply s2")
  have s2: "resultImage s2 = None" "error_old s2 = []"
    by (simp_all add: s2_def)
  note out = tryon_try_old_outcome [OF s2 t]
  have st: "fst (left (handleTryon num reply s0)) =
      (case thrown of None \<Rightarrow> s3
       | Some e \<Rightarrow> s3\<lparr>error_old := txt_network_error @ interpolate (err_message e)\<rparr>)
      \<lparr>loading_old := False\<rparr>"
    and fin: "completed (handleTryon num reply s0)"
    using assms enc t by (simp_all add: handleTryon_def Let_def s2_def)
  from out txt_nonempty have "length (shown_results_old (fst (left (handleTryon num reply s0)))) = 1"
    unfolding st
    by (cases thrown) (auto simp add: shown_results_old_def shown_def split: if_splits)
  with False fin show ?thesis by (simp add: st)
qed

lemma handleVirtualTryon_outcome:
  assumes "personImage s = Some p" and "garmentImage s = Some g"
  shows "\<not> loading (fst (handleVirtualTryon answer s))
       \<and> (alert_texts (snd (handleVirtualTryon answer s)) = []
            \<and> (\<exists>d. answer = Resolved d \<and> success d
                 \<and> result (fst (handleVirtualTryon answer s))
                     = Some (or_str (result_image d) []))
          \<or> length (alert_texts (snd (handleVirtualTryon answer s))) = 1
            \<and> result (fst (handleVirtualTryon answer s)) = result s)"
  using assms
  by (cases answer)
    (auto simp add: handleVirtualTryon_def tryon_try_def tryon_request_def Let_def
      split: promise.split option.split)

lemma handleTryon_unreadable:
  assumes "personImage_old s0 = Some p" and "garmentImage_old s0 = Some g"
    and "dataURL p = None \<or> dataURL g = None"
  shows "\<not> completed (handleTryon num reply s0)
       \<and> loading_old (fst (left (handleTryon num reply s0)))
       \<and> snd (left (handleTryon num reply s0)) = []"
  using assms
  by (auto simp add: handleTryon_def fileToBase64_old_def Let_def split: option.split)

text \<open>
  Claim C2 at its two failing inputs. What holds of the code is in the lemmas above: a
  handler run that completes leaves the loading flag false in every screen, and shows
  exactly one result in the timer-driven and in the legacy screen.

  In the session-aware screen, with the card of an earlier success on display, a failure
  response leaves that card beside the new error message: two results are current. The
  handler writes the failure to no cell, and it never clears the result, as the
  timer-driven and the legacy handler do before their request.

  In the legacy screen, with a person photo that cannot be read, the handler never
  completes: it waits on a promise that neither resolves nor rejects, sends no request,
  and leaves the loading flag true. The two newer screens reject that promise and clear
  the flag.
\<close>

theorem submit_outcome_defects:
  "shown_results (handleVirtualTryon (Resolved demo_no_face) demo_stale)
     = [Success ''OLD'', Failure ''no face detected'']
   \<and> result (fst (handleVirtualTryon (Resolved demo_no_face) demo_stale)) = Some ''OLD''
   \<and> \<not> loading (fst (handleVirtualTryon (Resolved demo_no_face) demo_stale))
   \<and> fst (handleVirtualTryon (Resolved demo_no_face) (demo_state ''pro'' 0))
       = demo_state ''pro'' 0
   \<and> \<not> completed (handleTryon demo_num (FetchResponse True 200 ''OK'' (Resolved demo_ok))
        demo_old_unreadable)
   \<and> loading_old (fst (left (handleTryon demo_num
        (FetchResponse True 200 ''OK'' (Resolved demo_ok)) demo_old_unreadable)))
   \<and> snd (left (handleTryon demo_num (FetchResponse True 200 ''OK'' (Resolved demo_ok))
        demo_old_unreadable)) = []
   \<and> \<not> loading_t (fst (handleVirtualTryon_t (Resolved demo_ok)
        (demo_timer_state\<lparr>personFile := Some demo_unreadable\<rparr>)))
   \<and> \<not> loading (fst (handleVirtualTryon (Resolved demo_ok)
        ((demo_state ''pro'' 0)\<lparr>personImage := Some demo_unreadable\<rparr>)))"
  by (simp add: handleVirtualTryon_def tryon_try_def tryon_request_def fileToBase64_def
      handleTryon_def fileToBase64_old_def handleVirtualTryon_t_def tryon_finish_t_def
      tryon_try_t_def tryon_start_t_def shown_results_def shown_def or_str_def Let_def
      demo_stale_def demo_state_def demo_old_unreadable_def demo_old_state_def
      initial_old_state_def demo_timer_state_def initial_timer_state_def demo_person_def
      demo_garment_def demo_unreadable_def demo_no_face_def)

subsection \<open>Success responses\<close>

lemma js_add_exact: "\<bar>a + b\<bar> < 2 ^ 53 \<Longrightarrow> js_add a b = a + b"
  by (simp add: js_add_def to_double_def)

text \<open>
  Claim C8, as the code has it. Let both files be chosen and readable, and let the backend
  answer with a success that carries a non-empty image \<open>img\<close> and a non-zero processing
  time \<open>t\<close>. Then the session-aware screen stores \<open>img\<close> as the result and \<open>t\<close> as the
  processing time, raises no alert, and adds \<open>1\<close> to the daily usage of the logged-in user
  in double arithmetic: exactly \<open>1\<close> while the sum stays below \<open>2 ^ 53\<close>. The cost of the
  response is not kept: a response with any other cost leaves the same state and the same
  effects. The timer-driven screen stores \<open>img\<close> and schedules the pop-up, which prints
  \<open>t\<close> and the cost if the browser opens the window and nothing if it does not. The
  legacy screen stores \<open>img\<close> and prints \<open>t\<close> into its message.
\<close>

theorem success_response_stored:
  assumes "dataURL p \<noteq> None" and "dataURL g \<noteq> None"
    and "success d" and "result_image d = Some img" and "img \<noteq> []"
    and "processing_time d = Some t" and "t \<noteq> 0"
  shows "(personImage s = Some p \<and> garmentImage s = Some g \<longrightarrow>
            result (fst (handleVirtualTryon (Resolved d) s)) = Some img
            \<and> processingTime (fst (handleVirtualTryon (Resolved d) s)) = Some t
            \<and> alert_texts (snd (handleVirtualTryon (Resolved d) s)) = []
            \<and> user (fst (handleVirtualTryon (Resolved d) s)) =
                map_option (\<lambda>u. u\<lparr>daily_usage := js_add (daily_usage u) 1\<rparr>) (user s)
            \<and> (user s = Some u \<and> \<bar>daily_usage u + 1\<bar> < 2 ^ 53 \<longrightarrow>
                 user (fst (handleVirtualTryon (Resolved d) s))
                   = Some (u\<lparr>daily_usage := daily_usage u + 1\<rparr>))
            \<and> \<not> loading (fst (handleVirtualTryon (Resolved d) s))
            \<and> handleVirtualTryon (Resolved (d\<lparr>cost := c\<rparr>)) s
                = handleVirtualTryon (Resolved d) s)
       \<and> (personFile ts = Some p \<and> garmentFile ts = Some g \<longrightarrow>
            result_t (fst (handleVirtualTryon_t (Resolved d) ts)) = Some img
            \<and> PopupLater img (Some t) (cost d)
                \<in> set (snd (handleVirtualTryon_t (Resolved d) ts))
            \<and> alert_texts (snd (handleVirtualTryon_t (Resolved d) ts)) = []
            \<and> popup_callback fixed1 num True img (Some t) (cost d) =
                [WindowOpen,
                 DocumentWrite img (or_str (Some (fixed1 t)) ''N/A'')
                   (case cost d of None \<Rightarrow> ''N/A''
                    | Some x \<Rightarrow> if x = 0 then ''N/A'' else num x)]
            \<and> popup_callback fixed1 num False img (Some t) (cost d) = [WindowOpen])
       \<and> (personImage_old s0 = Some p \<and> garmentImage_old s0 = Some g \<longrightarrow>
            resultImage (fst (left (handleTryon num (FetchResponse True status text
                (Resolved d)) s0))) = Some img
            \<and> error_old (fst (left (handleTryon num (FetchResponse True status text
                (Resolved d)) s0))) = []
            \<and> (message d = None \<and> is_test_mode d = None \<longrightarrow>
                 message_old (fst (left (handleTryon num (FetchResponse True status text
                     (Resolved d)) s0)))
                   = txt_completed @ txt_time_open @ num t @ txt_time_close)
            \<and> handleTryon num (FetchResponse True status text (Resolved (d\<lparr>cost := c\<rparr>))) s0
                = handleTryon num (FetchResponse True status text (Resolved d)) s0)"
proof -
  from assms(1,2) obtain up ug where url: "dataURL p = Some up" "dataURL g = Some ug"
    by auto
  have a: "personImage s = Some p \<and> garmentImage s = Some g \<longrightarrow>
            result (fst (handleVirtualTryon (Resolved d) s)) = Some img
            \<and> processingTime (fst (handleVirtualTryon (Resolved d) s)) = Some t
            \<and> alert_texts (snd (handleVirtualTryon (Resolved d) s)) = []
            \<and> user (fst (handleVirtualTryon (Resolved d) s)) =
                map_option (\<lambda>u. u\<lparr>daily_usage := js_add (daily_usage u) 1\<rparr>) (user s)
            \<and> \<not> loading (fst (handleVirtualTryon (Resolved d) s))
            \<and> handleVirtualTryon (Resolved (d\<lparr>cost := c\<rparr>)) s
                = handleVirtualTryon (Resolved d) s"
    using assms(3-7) url
    by (auto simp add: handleVirtualTryon_def tryon_try_def tryon_request_def
        fileToBase64_def or_str_def or_num_def Let_def split: option.split)
  have a': "personImage s = Some p \<and> garmentImage s = Some g \<longrightarrow>
      (user s = Some u \<and> \<bar>daily_usage u + 1\<bar> < 2 ^ 53 \<longrightarrow>
         user (fst (handleVirtualTryon (Resolved d) s))
           = Some (u\<lparr>daily_usage := daily_usage u + 1\<rparr>))"
    using a js_add_exact [of "daily_usage u" 1] by auto
  have b: "personFile ts = Some p \<and> garmentFile ts = Some g \<longrightarrow>
            result_t (fst (handleVirtualTryon_t (Resolved d) ts)) = Some img
            \<and> PopupLater img (Some t) (cost d)
                \<in> set (snd (handleVirtualTryon_t (Resolved d) ts))
            \<and> alert_texts (snd (handleVirtualTryon_t (Resolved d) ts)) = []"
    using assms(3-7) url
    by (simp add: handleVirtualTryon_t_def tryon_finish_t_def tryon_try_t_def
        tryon_start_t_def fileToBase64_def Let_def)
  have b': "popup_callback fixed1 num True img (Some t) (cost d) =
                [WindowOpen,
                 DocumentWrite img (or_str (Some (fixed1 t)) ''N/A'')
                   (case cost d of None \<Rightarrow> ''N/A''
                    | Some x \<Rightarrow> if x = 0 then ''N/A'' else num x)]"
    "popup_callback fixed1 num False img (Some t) (cost d) = [WindowOpen]"
    by (simp_all add: popup_callback_def)
  have c: "personImage_old s0 = Some p \<and> garmentImage_old s0 = Some g \<longrightarrow>
            resultImage (fst (left (handleTryon num (FetchResponse True status text
                (Resolved d)) s0))) = Some img
            \<and> error_old (fst (left (handleTryon num (FetchResponse True status text
                (Resolved d)) s0))) = []
            \<and> (message d = None \<and> is_test_mode d = None \<longrightarrow>
                 message_old (fst (left (handleTryon num (FetchResponse True status text
                     (Resolved d)) s0)))
                   = txt_completed @ txt_time_open @ num t @ txt_time_close)
            \<and> handleTryon num (FetchResponse True status text (Resolved (d\<lparr>cost := c\<rparr>))) s0
                = handleTryon num (FetchResponse True status text (Resolved d)) s0"
    using assms(3-7) url
    by (simp add: handleTryon_def tryon_try_old_def fileToBase64_old_def truthy_def
        or_str_def Let_def)
  from a a' b b' c show ?thesis by blast
qed

theorem success_response_stored_witness:
  "result (fst (handleVirtualTryon (Resolved demo_ok) (demo_state ''free'' 2))) = Some ''X''
   \<and> processingTime (fst (handleVirtualTryon (Resolved demo_ok) (demo_state ''free'' 2)))
       = Some 4.2
   \<and> user (fst (handleVirtualTryon (Resolved demo_ok) (demo_state ''free'' 2)))
       = Some (demo_user ''free'' 3)
   \<and> result_t (fst (handleVirtualTryon_t (Resolved demo_ok) demo_timer_state)) = Some ''X''
   \<and> PopupLater ''X'' (Some 4.2) (Some 0.1)
       \<in> set (snd (handleVirtualTryon_t (Resolved demo_ok) demo_timer_state))
   \<and> popup_callback demo_fixed1 demo_num True ''X'' (Some 4.2) (Some 0.1)
       = [WindowOpen, DocumentWrite ''X'' ''4.2'' ''0.1'']
   \<and> popup_callback demo_fixed1 demo_num False ''X'' (Some 4.2) (Some 0.1) = [WindowOpen]
   \<and> resultImage (fst (left (handleTryon demo_num
        (FetchResponse True 200 ''OK'' (Resolved demo_ok)) demo_old_state))) = Some ''X''"
proof -
  have f: "dataURL demo_person \<noteq> None" "dataURL demo_garment \<noteq> None"
    by (simp_all add: demo_person_def demo_garment_def)
  have d: "success demo_ok" "result_image demo_ok = Some ''X''" "''X'' \<noteq> []"
    "processing_time demo_ok = Some 4.2" "(4.2 :: real) \<noteq> 0"
    by (simp_all add: demo_ok_def)
  have u: "user (demo_state ''free'' 2) = Some (demo_user ''free'' 2)"
    "\<bar>daily_usage (demo_user ''free'' 2) + 1\<bar> < 2 ^ 53"
    by (simp_all add: demo_state_def demo_user_def)
  show ?thesis
    using u success_response_stored [OF f d, of "demo_state ''free'' 2"
        "demo_user ''free'' 2" "Some 99" demo_timer_state demo_fixed1 demo_num
        demo_old_state 200 "''OK''"]
    by (simp add: demo_state_def demo_user_def demo_timer_state_def initial_timer_state_def
        demo_old_state_def initial_old_state_def demo_ok_def demo_fixed1_def demo_num_def
        or_str_def js_add_exact)
qed

text \<open>
  The claim has the cost \<open>0.1\<close> in the current result, and a counter that grows by exactly
  \<open>1\<close>. In the session-aware screen the state after the claim's response is the state
  before with the result, the processing time and the daily usage written, and the same
  response with a cost of \<open>99\<close> leaves the same state and effects; the same holds for the
  legacy screen. A counter of \<open>2 ^ 53\<close> is left as it is by the addition.
\<close>

theorem cost_not_kept:
  "cost demo_ok = Some 0.1
   \<and> fst (handleVirtualTryon (Resolved demo_ok) (demo_state ''free'' 2))
       = (demo_state ''free'' 3)\<lparr>result := Some ''X'', processingTime := Some 4.2\<rparr>
   \<and> handleVirtualTryon (Resolved demo_ok) (demo_state ''free'' 2)
       = handleVirtualTryon (Resolved (demo_ok\<lparr>cost := Some 99\<rparr>)) (demo_state ''free'' 2)
   \<and> handleTryon demo_num (FetchResponse True 200 ''OK'' (Resolved demo_ok)) demo_old_state
       = handleTryon demo_num
           (FetchResponse True 200 ''OK'' (Resolved (demo_ok\<lparr>cost := Some 99\<rparr>)))
           demo_old_state
   \<and> user (fst (handleVirtualTryon (Resolved demo_ok) (demo_state ''free'' (2 ^ 53))))
       = Some (demo_user ''free'' (2 ^ 53))"
proof -
  have r: "js_add (2 ^ 53) 1 = 2 ^ 53"
    by code_simp
  have "user (fst (handleVirtualTryon (Resolved demo_ok) (demo_state ''free'' (2 ^ 53))))
       = Some (demo_user ''free'' (js_add (2 ^ 53) 1))"
    by (simp add: handleVirtualTryon_def tryon_try_def tryon_request_def fileToBase64_def
        Let_def demo_state_def demo_user_def demo_person_def demo_garment_def demo_ok_def)
  then have big: "user (fst (handleVirtualTryon (Resolved demo_ok)
      (demo_state ''free'' (2 ^ 53)))) = Some (demo_user ''free'' (2 ^ 53))"
    by (simp only: r)
  have small: "js_add 2 1 = 3"
    by (simp add: js_add_exact)
  have rest: "cost demo_ok = Some 0.1
   \<and> fst (handleVirtualTryon (Resolved demo_ok) (demo_state ''free'' 2))
       = (demo_state ''free'' 3)\<lparr>result := Some ''X'', processingTime := Some 4.2\<rparr>
   \<and> handleVirtualTryon (Resolved demo_ok) (demo_state ''free'' 2)
       = handleVirtualTryon (Resolved (demo_ok\<lparr>cost := Some 99\<rparr>)) (demo_state ''free'' 2)
   \<and> handleTryon demo_num (FetchResponse True 200 ''OK'' (Resolved demo_ok)) demo_old_state
       = handleTryon demo_num
           (FetchResponse True 200 ''OK'' (Resolved (demo_ok\<lparr>cost := Some 99\<rparr>)))
           demo_old_state"
    by (simp add: handleVirtualTryon_def tryon_try_def tryon_request_def fileToBase64_def
        handleTryon_def tryon_try_old_def fileToBase64_old_def truthy_def index_def
        or_str_def or_num_def Let_def demo_state_def demo_user_def demo_old_state_def
        initial_old_state_def demo_person_def demo_garment_def demo_ok_def small)
  from rest big show ?thesis by blast
qed

subsection \<open>Failure responses\<close>

lemma failure_response_handling:
  assumes "dataURL p \<noteq> None" and "dataURL g \<noteq> None"
  shows "(personImage s = Some p \<and> garmentImage s = Some g \<and> \<not> success d \<longrightarrow>
            alert_texts (snd (handleVirtualTryon (Resolved d) s))
              = [or_str (error d) txt_tryon_failed]
            \<and> fst (handleVirtualTryon (Resolved d) s) = s\<lparr>loading := False\<rparr>)
       \<and> (personFile ts = Some p \<and> garmentFile ts = Some g
            \<and> (\<not> success d \<or> \<not> truthy (result_image d)) \<longrightarrow>
            alert_texts (snd (handleVirtualTryon_t (Resolved d) ts))
              = [or_str (error d) txt_unknown_error]
            \<and> result_t (fst (handleVirtualTryon_t (Resolved d) ts)) = None)
       \<and> (personImage_old s0 = Some p \<and> garmentImage_old s0 = Some g
            \<and> (\<not> success d \<or> \<not> truthy (result_image d)) \<longrightarrow>
            error_old (fst (left (handleTryon num (FetchResponse True status text
                (Resolved d)) s0)))
              = or_str (or_opt (error d) (message d)) txt_fitting_failed
            \<and> resultImage (fst (left (handleTryon num (FetchResponse True status text
                (Resolved d)) s0))) = None)"
proof -
  from assms obtain up ug where url: "dataURL p = Some up" "dataURL g = Some ug"
    by auto
  then show ?thesis
    by (auto simp add: handleVirtualTryon_def tryon_try_def tryon_request_def
        handleVirtualTryon_t_def tryon_finish_t_def tryon_try_t_def tryon_start_t_def
        handleTryon_def tryon_try_old_def fileToBase64_def fileToBase64_old_def
        truthy_def Let_def split: option.split)
qed

text \<open>
  Claim C4 at the response \<^verbatim>\<open>{success: true}\<close>, which carries no image. The timer-driven
  and the legacy screen raise an error for it (\<open>failure_response_handling\<close>). The
  session-aware screen takes it as a success: it stores the empty string as the result
  and \<open>0\<close> as the processing time, counts one more use, raises no alert and shows nothing.
\<close>

theorem success_without_image:
  "result (fst (handleVirtualTryon (Resolved demo_no_image) (demo_state ''free'' 2)))
     = Some []
   \<and> processingTime (fst (handleVirtualTryon (Resolved demo_no_image)
       (demo_state ''free'' 2))) = Some 0
   \<and> user (fst (handleVirtualTryon (Resolved demo_no_image) (demo_state ''free'' 2)))
       = Some (demo_user ''free'' 3)
   \<and> alert_texts (snd (handleVirtualTryon (Resolved demo_no_image) (demo_state ''free'' 2)))
       = []
   \<and> shown_results (handleVirtualTryon (Resolved demo_no_image) (demo_state ''free'' 2)) = []
   \<and> alert_texts (snd (handleVirtualTryon_t (Resolved demo_no_image) demo_timer_state))
       = [txt_unknown_error]
   \<and> error_old (fst (left (handleTryon demo_num
        (FetchResponse True 200 ''OK'' (Resolved demo_no_image)) demo_old_state)))
       = txt_fitting_failed"
  by (simp add: handleVirtualTryon_def tryon_try_def tryon_request_def fileToBase64_def
      handleVirtualTryon_t_def tryon_finish_t_def tryon_try_t_def tryon_start_t_def
      handleTryon_def tryon_try_old_def fileToBase64_old_def truthy_def index_def
      shown_results_def shown_def or_str_def or_opt_def or_num_def Let_def demo_state_def
      demo_user_def demo_timer_state_def initial_timer_state_def demo_old_state_def
      initial_old_state_def demo_person_def demo_garment_def demo_no_image_def
      js_add_exact)

end
